theory Spec2Isabelle
  imports Complex_Main "HOL-Library.AList"
begin

section \<open>Python values, library functions and exceptions\<close>

text \<open>
  Values that cross the boundary to a backend are JSON values (\<open>response.json()\<close>, the
  dicts a memory client returns). A dict is an association list in insertion order;
  \<open>AList.update\<close> is Python's \<open>d[k] = v\<close> (overwrite in place, else append). A JSON
  number is the real number it denotes. \<open>PyObject s\<close> is a Python object that is not a
  JSON value, such as a member of an \<open>Enum\<close>, with \<open>s\<close> its \<open>str()\<close>: it can sit in a dict
  the code builds, and \<open>json.dumps\<close> without \<open>default\<close> raises \<open>TypeError\<close> on it.
\<close>

datatype json =
    JNull
  | JBool bool
  | JNum real
  | JStr string
  | JArr "json list"
  | JObj "(string \<times> json) list"
  | PyObject string

text \<open>
  Library functions the code calls and this development does not define: whether
  \<open>s.encode('utf-8')\<close> succeeds (it raises \<open>UnicodeEncodeError\<close> on a lone surrogate), the
  hex digest \<open>hashlib.sha256(...).hexdigest()\<close> of the encoded string,
  \<open>json.dumps(v, sort_keys=True, default=str)\<close> (its output is ASCII, so encoding it
  never fails), \<open>str(v)\<close> of a value that is not a string, and \<open>str(e)\<close> of an exception.
  Every theorem holds for all of them.
\<close>

datatype exn =
    KeyError string
  | AttributeError string
  | TypeError
  | UnicodeEncodeError
  | RuntimeError string
  | ClientException string

record pylib =
  utf8_encodes :: "string \<Rightarrow> bool"
  sha256_hexdigest :: "string \<Rightarrow> string"
  json_dumps :: "json \<Rightarrow> string"
  py_repr :: "json \<Rightarrow> string"
  exn_str :: "exn \<Rightarrow> string"

text \<open>Sequencing of steps that may raise: \<open>Inl\<close> is a raised exception.\<close>

definition bind_exn :: "'e + 'a \<Rightarrow> ('a \<Rightarrow> 'e + 'b) \<Rightarrow> 'e + 'b" where
  "bind_exn m f = (case m of Inl e \<Rightarrow> Inl e | Inr x \<Rightarrow> f x)"

text \<open>\<open>try: body except Exception as e: handler(e)\<close>\<close>

definition try_except :: "exn + 'a \<Rightarrow> (exn \<Rightarrow> 'e + 'a) \<Rightarrow> 'e + 'a" where
  "try_except body handler = (case body of Inl e \<Rightarrow> handler e | Inr x \<Rightarrow> Inr x)"

text \<open>\<open>str(v)\<close>: a string is itself, anything else is printed by the library.\<close>

definition py_str :: "pylib \<Rightarrow> json \<Rightarrow> string" where
  "py_str lib v = (case v of JStr s \<Rightarrow> s | _ \<Rightarrow> py_repr lib v)"

text \<open>\<open>v.get(k, d)\<close>: only a dict has the method.\<close>

definition py_get :: "json \<Rightarrow> string \<Rightarrow> json \<Rightarrow> exn + json" where
  "py_get v k d =
     (case v of
        JObj kvs \<Rightarrow> Inr (case map_of kvs k of None \<Rightarrow> d | Some x \<Rightarrow> x)
      | _ \<Rightarrow> Inl (AttributeError ''get''))"

text \<open>\<open>bool(v)\<close>\<close>

definition py_truthy :: "json \<Rightarrow> bool" where
  "py_truthy v =
     (case v of
        JNull \<Rightarrow> False
      | JBool b \<Rightarrow> b
      | JNum n \<Rightarrow> n \<noteq> 0
      | JStr s \<Rightarrow> s \<noteq> []
      | JArr xs \<Rightarrow> xs \<noteq> []
      | JObj kvs \<Rightarrow> kvs \<noteq> []
      | PyObject s \<Rightarrow> True)"

text \<open>Whether \<open>json.dumps(v)\<close>, with no \<open>default\<close>, can encode the value.\<close>

fun json_encodable :: "json \<Rightarrow> bool" where
  "json_encodable (PyObject s) = False"
| "json_encodable (JArr xs) = list_all json_encodable xs"
| "json_encodable (JObj kvs) = list_all json_encodable (map snd kvs)"
| "json_encodable v = True"

text \<open>\<open>_create_forensic_hash\<close>: \<open>hashlib.sha256(content.encode('utf-8')).hexdigest()\<close>\<close>

definition create_forensic_hash :: "pylib \<Rightarrow> string \<Rightarrow> exn + string" where
  "create_forensic_hash lib content =
     (if utf8_encodes lib content then Inr (sha256_hexdigest lib content)
      else Inl UnicodeEncodeError)"

text \<open>\<open>sub in s\<close> on strings.\<close>

fun is_substring :: "string \<Rightarrow> string \<Rightarrow> bool" where
  "is_substring sub [] = (sub = [])"
| "is_substring sub (c # cs) = (take (length sub) (c # cs) = sub \<or> is_substring sub cs)"

text \<open>
  \<open>k in v\<close> for a string \<open>k\<close>: a key of a dict, an element of a list, a substring of a
  string; any other value is not iterable.
\<close>

definition py_contains :: "string \<Rightarrow> json \<Rightarrow> exn + bool" where
  "py_contains k v =
     (case v of
        JObj kvs \<Rightarrow> Inr (k \<in> set (map fst kvs))
      | JArr xs \<Rightarrow> Inr (JStr k \<in> set xs)
      | JStr s \<Rightarrow> Inr (is_substring k s)
      | _ \<Rightarrow> Inl TypeError)"

text \<open>
  \<open>for x in v\<close>: the elements of a list, the keys of a dict, the characters of a string;
  any other value is not iterable.
\<close>

definition py_iter :: "json \<Rightarrow> exn + json list" where
  "py_iter v =
     (case v of
        JArr xs \<Rightarrow> Inr xs
      | JObj kvs \<Rightarrow> Inr (map (\<lambda>kv. JStr (fst kv)) kvs)
      | JStr s \<Rightarrow> Inr (map (\<lambda>c. JStr [c]) s)
      | _ \<Rightarrow> Inl TypeError)"

section \<open>The orchestrator and its audit chain (quantum_memory.py)\<close>

text \<open>
  An audit entry is a dict whose values are strings, except \<open>chain_index\<close>, an int.
  On these values Python's \<open>==\<close> is equality.
\<close>

datatype audit_val = AStr string | AInt int

type_synonym audit_entry = "(string \<times> audit_val) list"

fun audit_val_json :: "audit_val \<Rightarrow> json" where
  "audit_val_json (AStr s) = JStr s"
| "audit_val_json (AInt i) = JNum (of_int i)"

definition audit_entry_json :: "audit_entry \<Rightarrow> json" where
  "audit_entry_json e = JObj (map (\<lambda>kv. (fst kv, audit_val_json (snd kv))) e)"

text \<open>\<open>entry[k]\<close>\<close>

definition entry_getitem :: "audit_entry \<Rightarrow> string \<Rightarrow> exn + audit_val" where
  "entry_getitem e k = (case map_of e k of None \<Rightarrow> Inl (KeyError k) | Some v \<Rightarrow> Inr v)"

text \<open>
  The state of \<open>QuantumMemoryOrchestrator\<close> that the operations read and write:
  \<open>self.case_id\<close>, which providers \<open>_initialize_providers\<close> mounted, the four counters of
  \<open>self.metrics\<close> and \<open>self.audit_chain\<close>.
\<close>

record orchestrator =
  case_id :: string
  has_mem0 :: bool
  has_supermemory :: bool
  total_memories_stored :: int
  successful_operations :: int
  failed_operations :: int
  search_queries :: int
  audit_chain :: "audit_entry list"

text \<open>
  What one call reads from outside: the clock, already formatted as the code formats it,
  and the UUID that \<open>uuid.uuid4()\<close> returns.
\<close>

record clock =
  now_hst :: string
  now_utc :: string
  now_iso :: string

text \<open>
  The \<open>result\<close> argument of \<open>_create_audit_entry\<close> (default \<open>None\<close>): \<open>ResultValue b\<close> is
  an object that is not an exception and whose truth value is \<open>b\<close>.
\<close>

datatype audit_result = ResultNone | ResultValue bool | ResultException

definition result_status_of :: "audit_result \<Rightarrow> string" where
  "result_status_of r = (case r of ResultValue True \<Rightarrow> ''success'' | _ \<Rightarrow> ''pending'')"

definition create_audit_entry ::
  "pylib \<Rightarrow> string \<Rightarrow> clock \<Rightarrow> orchestrator \<Rightarrow> string \<Rightarrow> json \<Rightarrow> audit_result
     \<Rightarrow> exn + (audit_entry \<times> orchestrator)" where
  "create_audit_entry lib uuid4 clk self operation data result =
     bind_exn
       (case audit_chain self of
          [] \<Rightarrow> Inr (AStr ''0'')
        | _ # _ \<Rightarrow> entry_getitem (last (audit_chain self)) ''entry_hash'')
       (\<lambda>previous_hash.
          let audit_entry =
                [(''id'', AStr uuid4),
                 (''case_id'', AStr (case_id self)),
                 (''operation'', AStr operation),
                 (''data_hash'', AStr (sha256_hexdigest lib (json_dumps lib data))),
                 (''timestamp_hst'', AStr (now_hst clk)),
                 (''timestamp_utc'', AStr (now_utc clk)),
                 (''chain_index'', AInt (int (length (audit_chain self)))),
                 (''previous_hash'', previous_hash),
                 (''result_status'', AStr (result_status_of result))];
              entry_string = json_dumps lib (audit_entry_json audit_entry);
              audit_entry' =
                AList.update ''entry_hash'' (AStr (sha256_hexdigest lib entry_string)) audit_entry
          in Inr (audit_entry', self\<lparr>audit_chain := audit_chain self @ [audit_entry']\<rparr>))"

text \<open>A sequence of appends: each call takes its own UUID, clock reading and arguments.\<close>

record append_call =
  call_uuid :: string
  call_clock :: clock
  call_operation :: string
  call_data :: json
  call_result :: audit_result

fun append_all :: "pylib \<Rightarrow> orchestrator \<Rightarrow> append_call list \<Rightarrow> exn + orchestrator" where
  "append_all lib self [] = Inr self"
| "append_all lib self (c # cs) =
     bind_exn
       (create_audit_entry lib (call_uuid c) (call_clock c) self
          (call_operation c) (call_data c) (call_result c))
       (\<lambda>r. append_all lib (snd r) cs)"

text \<open>
  \<open>_verify_audit_chain\<close>: the loop skips index 0 and compares every later entry with the
  one before it; \<open>verify_walk prev rest\<close> is the loop standing after \<open>prev\<close>. The whole
  body is inside \<open>try\<close>, and the handler returns \<open>False\<close>.
\<close>

fun verify_walk :: "audit_entry \<Rightarrow> audit_entry list \<Rightarrow> exn + bool" where
  "verify_walk prev [] = Inr True"
| "verify_walk prev (entry # rest) =
     bind_exn (entry_getitem prev ''entry_hash'')
       (\<lambda>expected_prev_hash.
          bind_exn (entry_getitem entry ''previous_hash'')
            (\<lambda>previous_hash.
               if previous_hash \<noteq> expected_prev_hash then Inr False
               else verify_walk entry rest))"

definition verify_body :: "audit_entry list \<Rightarrow> exn + bool" where
  "verify_body chain = (case chain of [] \<Rightarrow> Inr True | first # rest \<Rightarrow> verify_walk first rest)"

definition verify_audit_chain :: "audit_entry list \<Rightarrow> exn + bool" where
  "verify_audit_chain chain = try_except (verify_body chain) (\<lambda>e. Inr False)"

section \<open>Federated store and search (quantum_memory.py)\<close>

type_synonym dict = "(string \<times> json) list"

text \<open>\<open>d.get(k, default)\<close> on a dict.\<close>

definition dict_get :: "dict \<Rightarrow> string \<Rightarrow> json \<Rightarrow> json" where
  "dict_get d k dflt = (case map_of d k of None \<Rightarrow> dflt | Some v \<Rightarrow> v)"

text \<open>\<open>v[k]\<close> for a string \<open>k\<close>: only a dict can be indexed by a string.\<close>

definition json_getitem :: "json \<Rightarrow> string \<Rightarrow> exn + json" where
  "json_getitem v k =
     (case v of
        JObj kvs \<Rightarrow> (case map_of kvs k of None \<Rightarrow> Inl (KeyError k) | Some x \<Rightarrow> Inr x)
      | _ \<Rightarrow> Inl TypeError)"

text \<open>\<open>xs[:limit]\<close>: a negative limit counts from the end.\<close>

definition py_slice_to :: "'a list \<Rightarrow> int \<Rightarrow> 'a list" where
  "py_slice_to xs limit =
     (if 0 \<le> limit then take (nat limit) xs else take (nat (int (length xs) + limit)) xs)"

datatype memory_priority = CRITICAL | HIGH | MEDIUM | LOW

fun priority_value :: "memory_priority \<Rightarrow> string" where
  "priority_value CRITICAL = ''critical''"
| "priority_value HIGH = ''high''"
| "priority_value MEDIUM = ''medium''"
| "priority_value LOW = ''low''"

datatype memory_provider = Provider_MEM0 | Provider_SUPERMEMORY | Provider_MEMORY_PLUGIN | Provider_ALL

fun provider_value :: "memory_provider \<Rightarrow> string" where
  "provider_value Provider_MEM0 = ''mem0''"
| "provider_value Provider_SUPERMEMORY = ''supermemory''"
| "provider_value Provider_MEMORY_PLUGIN = ''memory_plugin''"
| "provider_value Provider_ALL = ''all''"

record memory_metadata =
  md_case_id :: string
  md_priority :: memory_priority
  md_source :: string
  hash_sha256 :: string
  timestamp_hst :: string
  timestamp_utc :: string
  chain_of_custody :: "string list"
  md_tags :: "string list"
  md_relations :: dict

text \<open>\<open>str(p)\<close> of a member of \<open>MemoryPriority\<close>, a plain \<open>Enum\<close>.\<close>

fun priority_str :: "memory_priority \<Rightarrow> string" where
  "priority_str CRITICAL = ''MemoryPriority.CRITICAL''"
| "priority_str HIGH = ''MemoryPriority.HIGH''"
| "priority_str MEDIUM = ''MemoryPriority.MEDIUM''"
| "priority_str LOW = ''MemoryPriority.LOW''"

text \<open>
  \<open>asdict(metadata)\<close>: \<open>dataclasses.asdict\<close> keeps the member of \<open>MemoryPriority\<close> as it
  is, an object that is not a JSON value.
\<close>

definition asdict :: "memory_metadata \<Rightarrow> dict" where
  "asdict m =
     [(''case_id'', JStr (md_case_id m)),
      (''priority'', PyObject (priority_str (md_priority m))),
      (''source'', JStr (md_source m)),
      (''hash_sha256'', JStr (hash_sha256 m)),
      (''timestamp_hst'', JStr (timestamp_hst m)),
      (''timestamp_utc'', JStr (timestamp_utc m)),
      (''chain_of_custody'', JArr (map JStr (chain_of_custody m))),
      (''tags'', JArr (map JStr (md_tags m))),
      (''relations'', JObj (md_relations m))]"

text \<open>
  What one federated call meets outside the orchestrator: the UUID and clock of its
  audit entry, its own clock readings, and what each backend does with the request.
  \<open>mem0_call\<close> is the outcome of \<open>self.providers[MEM0].add(...)\<close> or \<open>.search(...)\<close>.
  For SuperMemory, \<open>sm_enter\<close> and \<open>sm_exit\<close> are the exceptions (if any) of entering
  and leaving \<open>async with\<close>, and \<open>sm_http\<close> is the outcome of the HTTP request, once
  it is sent, with \<open>raise_for_status()\<close> and \<open>response.json()\<close>. A request whose
  \<open>json=\<close> payload cannot be encoded is never sent: \<open>session.post\<close> raises \<open>TypeError\<close>.
  The arguments of the Mem0 calls and the query parameters of the SuperMemory search
  are strings and numbers, and only feed these calls.
\<close>

record backend_env =
  env_uuid :: string
  env_audit_clock :: clock
  env_now :: clock
  env_done :: clock
  mem0_call :: "exn + json"
  sm_enter :: "exn option"
  sm_http :: "exn + json"
  sm_exit :: "exn option"

text \<open>\<open>SuperMemoryClient.store_memory\<close> and \<open>search_memory\<close> turn an exception into a dict.\<close>

definition sm_store_memory :: "pylib \<Rightarrow> backend_env \<Rightarrow> string \<Rightarrow> dict \<Rightarrow> json" where
  "sm_store_memory lib env content metadata =
     (let payload = JObj [(''content'', JStr content), (''metadata'', JObj metadata),
                          (''tenant_id'', JStr ''case-1fdv-23-0001009'')]
      in case (if json_encodable payload then sm_http env else Inl TypeError) of
           Inr response \<Rightarrow> response
         | Inl e \<Rightarrow> JObj [(''error'', JStr (exn_str lib e)), (''status'', JStr ''failed'')])"

definition sm_search_memory :: "pylib \<Rightarrow> backend_env \<Rightarrow> json" where
  "sm_search_memory lib env =
     (case sm_http env of
        Inr response \<Rightarrow> response
      | Inl e \<Rightarrow> JObj [(''error'', JStr (exn_str lib e)), (''results'', JArr [])])"

text \<open>\<open>async with self.providers[SUPERMEMORY] as client: result = await body\<close>\<close>

definition sm_session :: "backend_env \<Rightarrow> json \<Rightarrow> exn + json" where
  "sm_session env result =
     (case sm_enter env of
        Some e \<Rightarrow> Inl e
      | None \<Rightarrow> (case sm_exit env of Some e \<Rightarrow> Inl e | None \<Rightarrow> Inr result))"

definition store_mem0 :: "pylib \<Rightarrow> backend_env \<Rightarrow> dict" where
  "store_mem0 lib env =
     (case bind_exn (mem0_call env)
             (\<lambda>result. bind_exn (py_get result ''id'' (JStr ''unknown''))
                (\<lambda>logged. bind_exn (py_get result ''id'' JNull)
                   (\<lambda>ident. Inr [(''status'', JStr ''success''), (''id'', ident),
                                 (''provider'', JStr ''mem0'')]))) of
        Inr outcome \<Rightarrow> outcome
      | Inl e \<Rightarrow> [(''status'', JStr ''failed''), (''error'', JStr (exn_str lib e)),
                  (''provider'', JStr ''mem0'')])"

definition store_supermemory :: "pylib \<Rightarrow> backend_env \<Rightarrow> string \<Rightarrow> memory_metadata \<Rightarrow> dict" where
  "store_supermemory lib env content metadata =
     (case bind_exn
             (let sm_metadata =
                    AList.update ''tenant_id'' (JStr ''case-1fdv-23-0001009'') (asdict metadata)
              in sm_session env (sm_store_memory lib env content sm_metadata))
             (\<lambda>result. bind_exn (py_contains ''error'' result)
                (\<lambda>has_error.
                   if \<not> has_error then
                     Inr [(''status'', JStr ''success''), (''result'', result),
                          (''provider'', JStr ''supermemory'')]
                   else bind_exn (json_getitem result ''error'')
                     (\<lambda>err. Inr [(''status'', JStr ''failed''), (''error'', err),
                                 (''provider'', JStr ''supermemory'')]))) of
        Inr outcome \<Rightarrow> outcome
      | Inl e \<Rightarrow> [(''status'', JStr ''failed''), (''error'', JStr (exn_str lib e)),
                  (''provider'', JStr ''supermemory'')])"

definition search_mem0 :: "pylib \<Rightarrow> backend_env \<Rightarrow> dict" where
  "search_mem0 lib env =
     (case mem0_call env of
        Inr results \<Rightarrow>
          (let normalized =
                 (case results of
                    JArr xs \<Rightarrow> xs
                  | _ \<Rightarrow> if py_truthy results then [results] else [])
           in [(''status'', JStr ''success''), (''results'', JArr normalized),
               (''provider'', JStr ''mem0'')])
      | Inl e \<Rightarrow> [(''status'', JStr ''failed''), (''error'', JStr (exn_str lib e)),
                  (''results'', JArr []), (''provider'', JStr ''mem0'')])"

definition search_supermemory :: "pylib \<Rightarrow> backend_env \<Rightarrow> dict" where
  "search_supermemory lib env =
     (case bind_exn (sm_session env (sm_search_memory lib env))
             (\<lambda>result. bind_exn (py_contains ''error'' result)
                (\<lambda>has_error.
                   if \<not> has_error then
                     bind_exn (py_get result ''results'' (JArr []))
                       (\<lambda>rs. Inr [(''status'', JStr ''success''), (''results'', rs),
                                  (''provider'', JStr ''supermemory'')])
                   else bind_exn (json_getitem result ''error'')
                     (\<lambda>err. Inr [(''status'', JStr ''failed''), (''error'', err),
                                 (''results'', JArr []), (''provider'', JStr ''supermemory'')]))) of
        Inr outcome \<Rightarrow> outcome
      | Inl e \<Rightarrow> [(''status'', JStr ''failed''), (''error'', JStr (exn_str lib e)),
                  (''results'', JArr []), (''provider'', JStr ''supermemory'')])"

text \<open>The backends a call is dispatched to, in the order the code fills \<open>results\<close>.\<close>

definition dispatch_mem0 :: "orchestrator \<Rightarrow> memory_provider \<Rightarrow> bool" where
  "dispatch_mem0 self provider = ((provider = Provider_ALL \<or> provider = Provider_MEM0) \<and> has_mem0 self)"

definition dispatch_supermemory :: "orchestrator \<Rightarrow> memory_provider \<Rightarrow> bool" where
  "dispatch_supermemory self provider =
     ((provider = Provider_ALL \<or> provider = Provider_SUPERMEMORY) \<and> has_supermemory self)"

datatype http_exception = HTTPException int string

record store_result =
  sr_operation :: string
  sr_status :: string
  sr_content_hash :: string
  sr_audit_chain_index :: audit_val
  sr_providers_used :: "string list"
  sr_results :: "(string \<times> dict) list"
  sr_metadata :: json
  sr_timestamp :: string

text \<open>\<open>r.get('status') != 'failed'\<close> is \<open>\<not> store_failed r\<close>.\<close>

definition store_failed :: "dict \<Rightarrow> bool" where
  "store_failed r = (map_of r ''status'' = Some (JStr ''failed''))"

definition store_memory_unified ::
  "pylib \<Rightarrow> backend_env \<Rightarrow> orchestrator \<Rightarrow> string \<Rightarrow> memory_metadata \<Rightarrow> memory_provider
     \<Rightarrow> (http_exception + store_result) \<times> orchestrator" where
  "store_memory_unified lib env self content metadata provider =
     (case create_forensic_hash lib content of
        Inl e \<Rightarrow>
          (Inl (HTTPException 500 (''Memory storage failed: '' @ exn_str lib e)),
           self\<lparr>failed_operations := failed_operations self + 1\<rparr>)
      | Inr content_hash \<Rightarrow>
     (let metadata' = metadata
            \<lparr>hash_sha256 := content_hash,
             timestamp_hst := now_hst (env_now env),
             timestamp_utc := now_utc (env_now env),
             chain_of_custody :=
               chain_of_custody metadata @ [''stored_by_orchestrator_'' @ now_iso (env_now env)]\<rparr>;
          audit_data =
            JObj [(''content_length'', JNum (of_nat (length content))),
                  (''content_hash'', JStr content_hash),
                  (''metadata'', JObj (asdict metadata')),
                  (''provider'', JStr (provider_value provider))]
      in case create_audit_entry lib (env_uuid env) (env_audit_clock env) self
                ''store_memory_unified'' audit_data ResultNone of
           Inl e \<Rightarrow>
             (Inl (HTTPException 500 (''Memory storage failed: '' @ exn_str lib e)),
              self\<lparr>failed_operations := failed_operations self + 1\<rparr>)
         | Inr (audit_entry, self1) \<Rightarrow>
             (let results =
                    (if dispatch_mem0 self1 provider
                     then [(''mem0'', store_mem0 lib env)] else []) @
                    (if dispatch_supermemory self1 provider
                     then [(''supermemory'', store_supermemory lib env content metadata')]
                     else []);
                  self2 = self1\<lparr>total_memories_stored := total_memories_stored self1 + 1\<rparr>;
                  success_count = length (filter (\<lambda>r. \<not> store_failed r) (map snd results));
                  self3 =
                    (if success_count > 0
                     then self2\<lparr>successful_operations := successful_operations self2 + 1\<rparr>
                     else self2\<lparr>failed_operations := failed_operations self2 + 1\<rparr>)
              in case entry_getitem audit_entry ''chain_index'' of
                   Inl e \<Rightarrow>
                     (Inl (HTTPException 500 (''Memory storage failed: '' @ exn_str lib e)),
                      self3\<lparr>failed_operations := failed_operations self3 + 1\<rparr>)
                 | Inr chain_index \<Rightarrow>
                     (Inr \<lparr>sr_operation = ''store_memory_unified'',
                           sr_status = (if success_count > 0 then ''success'' else ''failed''),
                           sr_content_hash = content_hash,
                           sr_audit_chain_index = chain_index,
                           sr_providers_used = map fst results,
                           sr_results = results,
                           sr_metadata = JObj (asdict metadata'),
                           sr_timestamp = now_iso (env_now env)\<rparr>,
                      self3))))"

subsection \<open>Merging search results\<close>

text \<open>
  \<open>_merge_search_results\<close>. The content string of a result is
  \<open>str(result.get('content', result.get('text', '')))\<close>, its dedup key the hash of
  that string, and encoding the string can raise; a kept result is
  \<open>{**result, 'source_provider': provider, 'content_hash': content_hash}\<close>.
\<close>

definition item_content_str :: "pylib \<Rightarrow> dict \<Rightarrow> string" where
  "item_content_str lib result =
     py_str lib (dict_get result ''content'' (dict_get result ''text'' (JStr [])))"

definition item_content_hash :: "pylib \<Rightarrow> dict \<Rightarrow> string" where
  "item_content_hash lib result =
     sha256_hexdigest lib
       (py_str lib (dict_get result ''content'' (dict_get result ''text'' (JStr []))))"

definition with_source :: "string \<Rightarrow> string \<Rightarrow> dict \<Rightarrow> dict" where
  "with_source provider content_hash result =
     AList.update ''content_hash'' (JStr content_hash)
       (AList.update ''source_provider'' (JStr provider) result)"

text \<open>The inner loop over one provider's results; the state is \<open>(merged, seen_hashes)\<close>.\<close>

fun merge_provider ::
  "pylib \<Rightarrow> string \<Rightarrow> json list \<Rightarrow> dict list \<times> string set \<Rightarrow> exn + dict list \<times> string set" where
  "merge_provider lib provider [] acc = Inr acc"
| "merge_provider lib provider (result # rest) acc =
     (case result of
        JObj kvs \<Rightarrow>
          if \<not> utf8_encodes lib (item_content_str lib kvs) then Inl UnicodeEncodeError
          else
            (let content_hash = item_content_hash lib kvs
             in if content_hash \<notin> snd acc
                then merge_provider lib provider rest
                       (fst acc @ [with_source provider content_hash kvs],
                        insert content_hash (snd acc))
                else merge_provider lib provider rest acc)
      | _ \<Rightarrow> Inl (AttributeError ''get''))"

text \<open>The outer loop over \<open>results.items()\<close>.\<close>

fun merge_loop ::
  "pylib \<Rightarrow> (string \<times> dict) list \<Rightarrow> dict list \<times> string set \<Rightarrow> exn + dict list \<times> string set" where
  "merge_loop lib [] acc = Inr acc"
| "merge_loop lib (pr # rest) acc =
     (if map_of (snd pr) ''status'' = Some (JStr ''success'')
      then bind_exn (py_iter (dict_get (snd pr) ''results'' (JArr [])))
             (\<lambda>rs. bind_exn (merge_provider lib (fst pr) rs acc)
                (\<lambda>acc'. merge_loop lib rest acc'))
      else merge_loop lib rest acc)"

definition merge_search_results :: "pylib \<Rightarrow> (string \<times> dict) list \<Rightarrow> exn + dict list" where
  "merge_search_results lib results =
     bind_exn (merge_loop lib results ([], {})) (\<lambda>acc. Inr (fst acc))"

record search_result =
  sq_operation :: string
  sq_query :: string
  sq_case_id :: string
  sq_audit_chain_index :: audit_val
  providers_searched :: "string list"
  results_by_provider :: "(string \<times> dict) list"
  merged_results :: "dict list"
  total_found :: int
  sq_timestamp :: string

definition search_memory_unified ::
  "pylib \<Rightarrow> backend_env \<Rightarrow> orchestrator \<Rightarrow> string \<Rightarrow> string option \<Rightarrow> int \<Rightarrow> memory_provider
     \<Rightarrow> (http_exception + search_result) \<times> orchestrator" where
  "search_memory_unified lib env self query case_id_arg limit provider =
     (let search_case_id =
            (case case_id_arg of
               None \<Rightarrow> case_id self
             | Some c \<Rightarrow> if c = [] then case_id self else c);
          audit_data =
            JObj [(''query'', JStr query),
                  (''case_id'', JStr search_case_id),
                  (''limit'', JNum (of_int limit)),
                  (''provider'', JStr (provider_value provider))]
      in case create_audit_entry lib (env_uuid env) (env_audit_clock env) self
                ''search_memory_unified'' audit_data ResultNone of
           Inl e \<Rightarrow>
             (Inl (HTTPException 500 (''Memory search failed: '' @ exn_str lib e)), self)
         | Inr (audit_entry, self1) \<Rightarrow>
             (let results =
                    (if dispatch_mem0 self1 provider
                     then [(''mem0'', search_mem0 lib env)] else []) @
                    (if dispatch_supermemory self1 provider
                     then [(''supermemory'', search_supermemory lib env)] else []);
                  self2 = self1\<lparr>search_queries := search_queries self1 + 1\<rparr>
              in case bind_exn (merge_search_results lib results)
                        (\<lambda>merged. bind_exn (entry_getitem audit_entry ''chain_index'')
                           (\<lambda>chain_index. Inr (merged, chain_index))) of
                   Inl e \<Rightarrow>
                     (Inl (HTTPException 500 (''Memory search failed: '' @ exn_str lib e)),
                      self2)
                 | Inr (merged, chain_index) \<Rightarrow>
                     (Inr \<lparr>sq_operation = ''search_memory_unified'',
                           sq_query = query,
                           sq_case_id = search_case_id,
                           sq_audit_chain_index = chain_index,
                           providers_searched = map fst results,
                           results_by_provider = results,
                           merged_results = py_slice_to merged limit,
                           total_found = int (length merged),
                           sq_timestamp = now_iso (env_done env)\<rparr>,
                      self2)))"

section \<open>Backend adapters (adapters/mem0_adapter.py, adapters/supermemory_adapter.py)\<close>

record memory_record =
  mr_id :: string
  mr_content :: string
  mr_metadata :: dict
  mr_timestamp :: string
  mr_source_system :: string
  legal_relevance_score :: json
  cross_references :: "string list"

text \<open>
  \<open>uuid.uuid4()\<close> and \<open>datetime.now()\<close> read the world: \<open>uuid_source w n\<close> is the string
  of the \<open>n\<close>-th UUID drawn, \<open>time_source w n\<close> the ISO form of the \<open>n\<close>-th clock reading.
\<close>

record world =
  uuid_source :: "nat \<Rightarrow> string"
  uuid_count :: nat
  time_source :: "nat \<Rightarrow> string"
  time_count :: nat

definition uuid4 :: "world \<Rightarrow> string \<times> world" where
  "uuid4 w = (uuid_source w (uuid_count w), w\<lparr>uuid_count := Suc (uuid_count w)\<rparr>)"

definition now_isoformat :: "world \<Rightarrow> string \<times> world" where
  "now_isoformat w = (time_source w (time_count w), w\<lparr>time_count := Suc (time_count w)\<rparr>)"

text \<open>
  \<open>MockMem0Client.add\<close> and \<open>MockSuperMemoryClient.store\<close> have the same body. The state
  of a mock client is its dict \<open>self.memories\<close>. The default of \<open>metadata.get("id", ...)\<close> is
  evaluated before the lookup, so a UUID is drawn on every call; a list or a dict cannot
  be a dict key.
\<close>

type_synonym mock_client = "(json \<times> json) list"

definition unhashable :: "json \<Rightarrow> bool" where
  "unhashable v = (case v of JArr xs \<Rightarrow> True | JObj kvs \<Rightarrow> True | _ \<Rightarrow> False)"

definition mock_add ::
  "world \<Rightarrow> mock_client \<Rightarrow> string \<Rightarrow> dict \<Rightarrow> (exn + json \<times> mock_client) \<times> world" where
  "mock_add w memories content metadata =
     (let (fresh, w1) = uuid4 w;
          record_id = dict_get metadata ''id'' (JStr fresh);
          (stamp, w2) = now_isoformat w1;
          memory = JObj [(''id'', record_id), (''content'', JStr content),
                         (''metadata'', JObj metadata), (''timestamp'', JStr stamp)]
      in if unhashable record_id then (Inl TypeError, w2)
         else (Inr (JObj [(''id'', record_id), (''status'', JStr ''stored'')],
                    AList.update record_id memory memories), w2))"

record mem0_adapter =
  m0_is_initialized :: bool
  m0_client :: "mock_client option"
  m0_client_secondary :: "mock_client option"

definition mem0_store ::
  "world \<Rightarrow> mem0_adapter \<Rightarrow> string \<Rightarrow> dict
     \<Rightarrow> (exn + memory_record) \<times> mem0_adapter \<times> world" where
  "mem0_store w self content metadata =
     (if \<not> m0_is_initialized self
      then (Inl (RuntimeError ''Mem0 adapter not initialized''), self, w)
      else
        (let (record_id, w1) = uuid4 w;
             (timestamp, w2) = now_isoformat w1;
             record = \<lparr>mr_id = record_id, mr_content = content, mr_metadata = metadata,
                        mr_timestamp = timestamp, mr_source_system = ''Mem0'',
                        legal_relevance_score = dict_get metadata ''legal_relevance'' (JNum 0),
                        cross_references = []\<rparr>
         in case m0_client self of
              None \<Rightarrow> (Inl (AttributeError ''add''), self, w2)
            | Some client \<Rightarrow>
                (case mock_add w2 client content (AList.update ''id'' (JStr record_id) metadata) of
                   (Inl e, w3) \<Rightarrow> (Inl e, self, w3)
                 | (Inr (primary_result, client'), w3) \<Rightarrow>
                     (let self1 = self\<lparr>m0_client := Some client'\<rparr>
                      in case m0_client_secondary self1 of
                           None \<Rightarrow> (Inr record, self1, w3)
                         | Some secondary \<Rightarrow>
                             (case mock_add w3 secondary content
                                     (AList.update ''id'' (JStr record_id) metadata) of
                                (Inl e, w4) \<Rightarrow> (Inl e, self1, w4)
                              | (Inr (secondary_result, secondary'), w4) \<Rightarrow>
                                  (Inr record,
                                   self1\<lparr>m0_client_secondary := Some secondary'\<rparr>, w4))))))"

record supermemory_adapter =
  sm_is_initialized :: bool
  sm_client :: "mock_client option"

definition supermemory_store ::
  "world \<Rightarrow> supermemory_adapter \<Rightarrow> string \<Rightarrow> dict
     \<Rightarrow> (exn + memory_record) \<times> supermemory_adapter \<times> world" where
  "supermemory_store w self content metadata =
     (if \<not> sm_is_initialized self
      then (Inl (RuntimeError ''SuperMemory adapter not initialized''), self, w)
      else
        (let (record_id, w1) = uuid4 w;
             (timestamp, w2) = now_isoformat w1;
             record = \<lparr>mr_id = record_id, mr_content = content, mr_metadata = metadata,
                        mr_timestamp = timestamp, mr_source_system = ''SuperMemory'',
                        legal_relevance_score = dict_get metadata ''legal_relevance'' (JNum 0),
                        cross_references = []\<rparr>
         in case sm_client self of
              None \<Rightarrow> (Inl (AttributeError ''store''), self, w2)
            | Some client \<Rightarrow>
                (case mock_add w2 client content (AList.update ''id'' (JStr record_id) metadata) of
                   (Inl e, w3) \<Rightarrow> (Inl e, self, w3)
                 | (Inr (result, client'), w3) \<Rightarrow>
                     (Inr record, self\<lparr>sm_client := Some client'\<rparr>, w3))))"

section \<open>The resilient request layer (memoryplugin_client.py)\<close>

text \<open>
  \<open>backoff_factor\<close> is a Python float. What the code does with it are two library
  operations, taken as parameters over a type \<open>'f\<close> of floats:
  \<open>backoff_factor ** (attempt - 1)\<close>, which raises \<open>OverflowError\<close> when the result is
  out of range, and \<open>time.sleep(d)\<close>, which raises \<open>ValueError\<close> on a negative duration or
  a NaN and \<open>OverflowError\<close> on one too large.
\<close>

datatype builtin_error = OverflowError | ValueError

record 'f float_lib =
  float_pow :: "'f \<Rightarrow> nat \<Rightarrow> builtin_error + 'f"
  time_sleep :: "'f \<Rightarrow> builtin_error option"

record 'f client_config =
  api_key :: string
  base_url :: string
  timeout :: int
  max_retries :: int
  backoff_factor :: 'f

text \<open>
  A response as \<open>requests\<close> gives it: \<open>resp_json\<close> is \<open>None\<close> when \<open>resp.json()\<close> raises
  \<open>ValueError\<close>. \<open>resp.ok\<close> is false exactly when \<open>raise_for_status()\<close> raises, that is
  for a status from 400 to 599.
\<close>

record response =
  status_code :: int
  resp_text :: string
  resp_json :: "json option"

definition resp_ok :: "response \<Rightarrow> bool" where
  "resp_ok resp = (\<not> (400 \<le> status_code resp \<and> status_code resp < 600))"

text \<open>What one call of \<open>requests.request\<close> does: it raises or it returns a response.\<close>

datatype attempt_outcome = RequestException string | Response response

text \<open>
  The errors that leave \<open>_request\<close>. \<open>MemoryPluginError\<close> is raised with two messages,
  "Network error calling url: e" and "HTTP status calling url: text"; the constructors
  keep the parts of the message. \<open>Raised x\<close> is an error of the power or of
  \<open>time.sleep\<close>, which the code does not catch.
\<close>

datatype request_error =
    MemoryPluginError_Network string string
  | MemoryPluginRateLimitError int int string
  | MemoryPluginError_HTTP int string string
  | Raised builtin_error

text \<open>
  \<open>sleep_s = self.backoff_factor ** (attempt - 1); time.sleep(sleep_s)\<close>: the duration
  slept, when neither raises.
\<close>

definition backoff_sleep :: "'f float_lib \<Rightarrow> 'f \<Rightarrow> nat \<Rightarrow> builtin_error + 'f" where
  "backoff_sleep fl factor attempt =
     (case float_pow fl factor (attempt - 1) of
        Inl x \<Rightarrow> Inl x
      | Inr sleep_s \<Rightarrow> (case time_sleep fl sleep_s of Some x \<Rightarrow> Inl x | None \<Rightarrow> Inr sleep_s))"

text \<open>
  \<open>_request\<close>: \<open>transport n\<close> is the outcome of the \<open>n\<close>-th call of \<open>requests.request\<close>,
  \<open>attempt0\<close> the counter on entry to the loop body, \<open>slept\<close> the durations slept so
  far.
\<close>

function request_loop ::
  "'f float_lib \<Rightarrow> 'f client_config \<Rightarrow> string \<Rightarrow> (nat \<Rightarrow> attempt_outcome) \<Rightarrow> nat \<Rightarrow> 'f list
     \<Rightarrow> (request_error + json) \<times> 'f list" where
  "request_loop fl cfg url transport attempt0 slept =
     (let attempt = attempt0 + 1
      in case transport attempt of
           RequestException e \<Rightarrow>
             if int attempt > max_retries cfg
             then (Inl (MemoryPluginError_Network url e), slept)
             else (case backoff_sleep fl (backoff_factor cfg) attempt of
                     Inl x \<Rightarrow> (Inl (Raised x), slept)
                   | Inr sleep_s \<Rightarrow> request_loop fl cfg url transport attempt (slept @ [sleep_s]))
         | Response resp \<Rightarrow>
             if status_code resp = 429 \<or> (500 \<le> status_code resp \<and> status_code resp < 600)
             then
               if int attempt > max_retries cfg
               then (Inl (MemoryPluginRateLimitError (max_retries cfg) (status_code resp)
                            (take 500 (resp_text resp))), slept)
               else (case backoff_sleep fl (backoff_factor cfg) attempt of
                       Inl x \<Rightarrow> (Inl (Raised x), slept)
                     | Inr sleep_s \<Rightarrow>
                         request_loop fl cfg url transport attempt (slept @ [sleep_s]))
             else if \<not> resp_ok resp
             then (Inl (MemoryPluginError_HTTP (status_code resp) url
                          (take 500 (resp_text resp))), slept)
             else (Inr (case resp_json resp of Some v \<Rightarrow> v | None \<Rightarrow> JStr (resp_text resp)),
                   slept))"
  by pat_completeness auto
termination
  by (relation "measure (\<lambda>(fl, cfg, url, transport, attempt0, slept).
        nat (max_retries cfg - int attempt0))")
    auto

declare request_loop.simps [simp del]

definition request ::
  "'f float_lib \<Rightarrow> 'f client_config \<Rightarrow> string \<Rightarrow> (nat \<Rightarrow> attempt_outcome)
     \<Rightarrow> (request_error + json) \<times> 'f list" where
  "request fl cfg path transport = request_loop fl cfg (base_url cfg @ path) transport 0 []"

section \<open>Predicates and example inputs used in the statements\<close>

text \<open>
  The invariant of the audit chain: every entry carries its position as \<open>chain_index\<close>,
  has an \<open>entry_hash\<close>, and its \<open>previous_hash\<close> is the sentinel \<open>"0"\<close> at position
  0 and the \<open>entry_hash\<close> of the entry before it elsewhere.
\<close>

definition linked :: "audit_entry list \<Rightarrow> bool" where
  "linked c =
     (\<forall>i<length c.
        map_of (c ! i) ''chain_index'' = Some (AInt (int i)) \<and>
        (\<exists>h. map_of (c ! i) ''entry_hash'' = Some (AStr h)) \<and>
        map_of (c ! i) ''previous_hash'' =
          (if i = 0 then Some (AStr ''0'') else map_of (c ! (i - 1)) ''entry_hash''))"

text \<open>The state \<open>__init__\<close> leaves: counters at zero, an empty audit chain.\<close>

definition initial_orchestrator :: "string \<Rightarrow> bool \<Rightarrow> bool \<Rightarrow> orchestrator" where
  "initial_orchestrator cid mem0 supermemory =
     \<lparr>case_id = cid, has_mem0 = mem0, has_supermemory = supermemory,
      total_memories_stored = 0, successful_operations = 0, failed_operations = 0,
      search_queries = 0, audit_chain = []\<rparr>"

text \<open>
  Concrete inputs on which the definitions are evaluated. \<open>example_lib\<close> stands in for
  the library with functions that are easy to read in a result: every string encodes,
  the digest of \<open>s\<close> is \<open>sha256:s\<close>, and a dict is dumped as its string values, each
  followed by a semicolon.
\<close>

fun show_flat :: "json \<Rightarrow> string" where
  "show_flat (JStr s) = s"
| "show_flat v = ''_''"

definition example_lib :: pylib where
  "example_lib =
     \<lparr>utf8_encodes = (\<lambda>s. True),
      sha256_hexdigest = (\<lambda>s. ''sha256:'' @ s),
      json_dumps = (\<lambda>v. case v of
                          JObj kvs \<Rightarrow> concat (map (\<lambda>kv. show_flat (snd kv) @ '';'') kvs)
                        | _ \<Rightarrow> show_flat v),
      py_repr = (\<lambda>v. ''repr''),
      exn_str = (\<lambda>e. ''error'')\<rparr>"

definition example_clock :: clock where
  "example_clock = \<lparr>now_hst = ''t-hst'', now_utc = ''t-utc'', now_iso = ''t-iso''\<rparr>"

definition example_calls :: "append_call list" where
  "example_calls =
     [\<lparr>call_uuid = ''u1'', call_clock = example_clock, call_operation = ''store'',
       call_data = JStr ''a'', call_result = ResultNone\<rparr>,
      \<lparr>call_uuid = ''u2'', call_clock = example_clock, call_operation = ''search'',
       call_data = JStr ''b'', call_result = ResultNone\<rparr>]"

text \<open>The chain after the two appends of \<open>example_calls\<close>.\<close>

definition example_chain :: "audit_entry list" where
  "example_chain =
     [[(''id'', AStr ''u1''), (''case_id'', AStr ''c''), (''operation'', AStr ''store''),
       (''data_hash'', AStr ''sha256:a''), (''timestamp_hst'', AStr ''t-hst''),
       (''timestamp_utc'', AStr ''t-utc''), (''chain_index'', AInt 0),
       (''previous_hash'', AStr ''0''), (''result_status'', AStr ''pending''),
       (''entry_hash'', AStr ''sha256:u1;c;store;sha256:a;t-hst;t-utc;_;0;pending;'')],
      [(''id'', AStr ''u2''), (''case_id'', AStr ''c''), (''operation'', AStr ''search''),
       (''data_hash'', AStr ''sha256:b''), (''timestamp_hst'', AStr ''t-hst''),
       (''timestamp_utc'', AStr ''t-utc''), (''chain_index'', AInt 1),
       (''previous_hash'', AStr ''sha256:u1;c;store;sha256:a;t-hst;t-utc;_;0;pending;''),
       (''result_status'', AStr ''pending''),
       (''entry_hash'', AStr ''sha256:u2;c;search;sha256:b;t-hst;t-utc;_;sha256:u1;c;store;sha256:a;t-hst;t-utc;_;0;pending;;pending;'')]]"

text \<open>
  Three chains changed after the appends: a hashed field other than the link rewritten,
  the link of the second entry rewritten, and the second entry emptied.
\<close>

definition tampered_chain :: "audit_entry list" where
  "tampered_chain =
     [AList.update ''operation'' (AStr ''delete'') (example_chain ! 0), example_chain ! 1]"

definition broken_chain :: "audit_entry list" where
  "broken_chain =
     [example_chain ! 0, AList.update ''previous_hash'' (AStr ''forged'') (example_chain ! 1)]"

definition keyless_chain :: "audit_entry list" where
  "keyless_chain = [example_chain ! 0, []]"

subsection \<open>The merge as first-seen deduplication\<close>

text \<open>
  What \<open>_merge_search_results\<close> iterates over: the results of an outcome whose status
  is \<open>success\<close>, nothing for any other outcome; and all of them in iteration order,
  each with the name of its provider.
\<close>

definition provider_items :: "dict \<Rightarrow> exn + json list" where
  "provider_items pr =
     (if map_of pr ''status'' = Some (JStr ''success'')
      then py_iter (dict_get pr ''results'' (JArr []))
      else Inr [])"

definition flat_items :: "(string \<times> dict) list \<Rightarrow> (string \<times> json) list" where
  "flat_items results =
     concat (map (\<lambda>pr. case provider_items (snd pr) of
                           Inr xs \<Rightarrow> map (Pair (fst pr)) xs
                         | Inl e \<Rightarrow> []) results)"

text \<open>
  First-seen deduplication on content hashes, following the words of the specification:
  for each record in order, a record whose hash was seen is dropped, otherwise it is
  kept with its provider and hash.
\<close>

definition has_hash :: "pylib \<Rightarrow> string \<Rightarrow> string \<times> json \<Rightarrow> bool" where
  "has_hash lib h item =
     (case snd item of JObj kvs \<Rightarrow> item_content_hash lib kvs = h | _ \<Rightarrow> False)"

fun first_seen :: "pylib \<Rightarrow> (string \<times> json) list \<Rightarrow> string set \<Rightarrow> dict list" where
  "first_seen lib [] seen = []"
| "first_seen lib (item # rest) seen =
     (case snd item of
        JObj kvs \<Rightarrow>
          if item_content_hash lib kvs \<in> seen then first_seen lib rest seen
          else with_source (fst item) (item_content_hash lib kvs) kvs #
               first_seen lib rest (insert (item_content_hash lib kvs) seen)
      | _ \<Rightarrow> first_seen lib rest seen)"

text \<open>The content hashes that occur in a list of results.\<close>

definition item_hashes :: "pylib \<Rightarrow> (string \<times> json) list \<Rightarrow> string set" where
  "item_hashes lib items = {h. \<exists>item \<in> set items. has_hash lib h item}"

text \<open>The per-backend outcomes a call collects, in the order the code fills \<open>results\<close>.\<close>

definition search_outcomes ::
  "pylib \<Rightarrow> backend_env \<Rightarrow> orchestrator \<Rightarrow> memory_provider \<Rightarrow> (string \<times> dict) list" where
  "search_outcomes lib env self provider =
     (if dispatch_mem0 self provider then [(''mem0'', search_mem0 lib env)] else []) @
     (if dispatch_supermemory self provider
      then [(''supermemory'', search_supermemory lib env)] else [])"

text \<open>
  The metadata as \<open>store_memory_unified\<close> has updated it before it dispatches, and the
  outcomes of a store.
\<close>

definition stamped :: "pylib \<Rightarrow> backend_env \<Rightarrow> string \<Rightarrow> memory_metadata \<Rightarrow> memory_metadata" where
  "stamped lib env content metadata =
     metadata
       \<lparr>hash_sha256 := sha256_hexdigest lib content,
        timestamp_hst := now_hst (env_now env),
        timestamp_utc := now_utc (env_now env),
        chain_of_custody :=
          chain_of_custody metadata @ [''stored_by_orchestrator_'' @ now_iso (env_now env)]\<rparr>"

definition store_outcomes ::
  "pylib \<Rightarrow> backend_env \<Rightarrow> orchestrator \<Rightarrow> string \<Rightarrow> memory_metadata \<Rightarrow> memory_provider
     \<Rightarrow> (string \<times> dict) list" where
  "store_outcomes lib env self content metadata provider =
     (if dispatch_mem0 self provider then [(''mem0'', store_mem0 lib env)] else []) @
     (if dispatch_supermemory self provider
      then [(''supermemory'', store_supermemory lib env content (stamped lib env content metadata))]
      else [])"

text \<open>
  Example inputs. Two providers return the same content, the second one more record;
  and a failed outcome that still carries a record.
\<close>

definition example_search_results :: "(string \<times> dict) list" where
  "example_search_results =
     [(''mem0'',
       [(''status'', JStr ''success''),
        (''results'', JArr [JObj [(''content'', JStr ''evidence-17'')]]),
        (''provider'', JStr ''mem0'')]),
      (''supermemory'',
       [(''status'', JStr ''success''),
        (''results'', JArr [JObj [(''content'', JStr ''evidence-17'')],
                            JObj [(''content'', JStr ''evidence-22'')]]),
        (''provider'', JStr ''supermemory'')])]"

definition example_merged :: "dict list" where
  "example_merged =
     [[(''content'', JStr ''evidence-17''), (''source_provider'', JStr ''mem0''),
       (''content_hash'', JStr ''sha256:evidence-17'')],
      [(''content'', JStr ''evidence-22''), (''source_provider'', JStr ''supermemory''),
       (''content_hash'', JStr ''sha256:evidence-22'')]]"

definition example_mixed_results :: "(string \<times> dict) list" where
  "example_mixed_results =
     [(''mem0'',
       [(''status'', JStr ''failed''), (''error'', JStr ''timeout''),
        (''results'', JArr [JObj [(''content'', JStr ''evidence-99'')]]),
        (''provider'', JStr ''mem0'')]),
      (''supermemory'',
       [(''status'', JStr ''success''),
        (''results'', JArr [JObj [(''content'', JStr ''evidence-17'')],
                            JObj [(''text'', JStr ''evidence-17'')],
                            JObj [(''content'', JStr ''evidence-22'')]]),
        (''provider'', JStr ''supermemory'')])]"

definition example_mixed_merged :: "dict list" where
  "example_mixed_merged =
     [[(''content'', JStr ''evidence-17''), (''source_provider'', JStr ''supermemory''),
       (''content_hash'', JStr ''sha256:evidence-17'')],
      [(''content'', JStr ''evidence-22''), (''source_provider'', JStr ''supermemory''),
       (''content_hash'', JStr ''sha256:evidence-22'')]]"

definition example_search_env :: backend_env where
  "example_search_env =
     \<lparr>env_uuid = ''u1'', env_audit_clock = example_clock, env_now = example_clock,
      env_done = example_clock,
      mem0_call = Inr (JArr [JObj [(''content'', JStr ''evidence-17'')]]),
      sm_enter = None,
      sm_http = Inr (JObj [(''results'', JArr [JObj [(''content'', JStr ''evidence-17'')],
                                               JObj [(''content'', JStr ''evidence-22'')]])]),
      sm_exit = None\<rparr>"



text \<open>
  Three more environments: both backends would answer a store; Mem0 raises a timeout
  and SuperMemory answers a search; Mem0 answers a search well and SuperMemory answers
  200 with \<open>{"results": null}\<close>.
\<close>

definition example_store_env :: backend_env where
  "example_store_env =
     \<lparr>env_uuid = ''u1'', env_audit_clock = example_clock, env_now = example_clock,
      env_done = example_clock,
      mem0_call = Inr (JObj [(''id'', JStr ''r1'')]),
      sm_enter = None,
      sm_http = Inr (JObj [(''id'', JStr ''s1'')]),
      sm_exit = None\<rparr>"





definition example_metadata :: memory_metadata where
  "example_metadata =
     \<lparr>md_case_id = ''c'', md_priority = CRITICAL, md_source = ''api'', hash_sha256 = [],
      timestamp_hst = [], timestamp_utc = [], chain_of_custody = [], md_tags = [],
      md_relations = []\<rparr>"

subsection \<open>Example inputs for the adapters and the request layer\<close>

text \<open>
  A world whose UUIDs and clock readings are all different, two initialised adapters
  with empty mock clients, and metadata in which the caller has put an id.
\<close>

definition example_world :: world where
  "example_world =
     \<lparr>uuid_source = (\<lambda>n. ''uuid-'' @ replicate n CHR ''x''), uuid_count = 0,
      time_source = (\<lambda>n. ''t-'' @ replicate n CHR ''x''), time_count = 0\<rparr>"

definition example_mem0 :: mem0_adapter where
  "example_mem0 = \<lparr>m0_is_initialized = True, m0_client = Some [], m0_client_secondary = None\<rparr>"

definition example_supermemory :: supermemory_adapter where
  "example_supermemory = \<lparr>sm_is_initialized = True, sm_client = Some []\<rparr>"

definition example_record_metadata :: dict where
  "example_record_metadata = [(''id'', JStr ''engine-id''), (''case_id'', JStr ''c'')]"

text \<open>
  The outcomes on which \<open>_request\<close> tries again: a transport failure, 429 or 5xx.
\<close>

definition retryable :: "attempt_outcome \<Rightarrow> bool" where
  "retryable outcome =
     (case outcome of
        RequestException e \<Rightarrow> True
      | Response resp \<Rightarrow>
          status_code resp = 429 \<or> (500 \<le> status_code resp \<and> status_code resp < 600))"

text \<open>
  Floats stood in for by the real numbers they denote, exact on the powers
  \<open>1.5 ** 0\<close>, \<open>1.5 ** 1\<close> and \<open>(-1.0) ** 1\<close> of the examples: a power out of the range
  of a double raises \<open>OverflowError\<close>, and \<open>time.sleep\<close> raises \<open>ValueError\<close> on a
  negative duration and \<open>OverflowError\<close> on one that does not fit 64 bits of
  nanoseconds. Then the default configuration of \<open>MemoryPluginClient\<close> with a backoff
  factor of 1.5; a transport that answers 304 Not Modified; and one that times out twice
  and then answers 200 with a JSON body.
\<close>

definition example_floats :: "real float_lib" where
  "example_floats =
     \<lparr>float_pow = (\<lambda>b n. if \<bar>b ^ n\<bar> < 2 ^ 1024 then Inr (b ^ n) else Inl OverflowError),
      time_sleep = (\<lambda>d. if d < 0 then Some ValueError
                         else if 2 ^ 63 \<le> d * 10 ^ 9 then Some OverflowError else None)\<rparr>"

definition example_config :: "real client_config" where
  "example_config =
     \<lparr>api_key = ''key'', base_url = ''https://api.memoryplugin.com'', timeout = 15,
      max_retries = 3, backoff_factor = 3 / 2\<rparr>"

definition not_modified :: "nat \<Rightarrow> attempt_outcome" where
  "not_modified n = Response \<lparr>status_code = 304, resp_text = [], resp_json = None\<rparr>"

definition two_timeouts :: "nat \<Rightarrow> attempt_outcome" where
  "two_timeouts n =
     (if n \<le> 2 then RequestException ''timeout''
      else Response \<lparr>status_code = 200, resp_text = ''{}'',
                     resp_json = Some (JObj [(''id'', JStr ''m1'')])\<rparr>)"

section \<open>The audit chain\<close>

lemma linked_Nil: "linked []"
  by (simp add: linked_def)

lemma linked_snoc:
  assumes c: "linked c"
    and idx: "map_of e ''chain_index'' = Some (AInt (int (length c)))"
    and eh: "\<exists>h. map_of e ''entry_hash'' = Some (AStr h)"
    and ph: "map_of e ''previous_hash'' =
               (if c = [] then Some (AStr ''0'') else map_of (last c) ''entry_hash'')"
  shows "linked (c @ [e])"
  unfolding linked_def
proof (intro allI impI)
  fix i assume i: "i < length (c @ [e])"
  show "map_of ((c @ [e]) ! i) ''chain_index'' = Some (AInt (int i)) \<and>
        (\<exists>h. map_of ((c @ [e]) ! i) ''entry_hash'' = Some (AStr h)) \<and>
        map_of ((c @ [e]) ! i) ''previous_hash'' =
          (if i = 0 then Some (AStr ''0'') else map_of ((c @ [e]) ! (i - 1)) ''entry_hash'')"
  proof (cases "i < length c")
    case True
    then have "i - 1 < length c" by simp
    with True c show ?thesis
      by (simp add: linked_def nth_append)
  next
    case False
    with i have il: "i = length c" by simp
    show ?thesis
    proof (cases "c = []")
      case True
      with il idx eh ph show ?thesis by simp
    next
      case False
      then have "last c = c ! (length c - 1)" by (simp add: last_conv_nth)
      with False il idx eh ph show ?thesis
        by (simp add: nth_append)
    qed
  qed
qed

lemma create_audit_entry_step:
  assumes "linked (audit_chain s)"
  shows "\<exists>e. create_audit_entry lib u clk s opn d r = Inr (e, s\<lparr>audit_chain := audit_chain s @ [e]\<rparr>) \<and>
             map_of e ''chain_index'' = Some (AInt (int (length (audit_chain s)))) \<and>
             (\<exists>h. map_of e ''entry_hash'' = Some (AStr h)) \<and>
             map_of e ''previous_hash'' =
               (if audit_chain s = [] then Some (AStr ''0'')
                else map_of (last (audit_chain s)) ''entry_hash'')"
proof (cases "audit_chain s")
  case Nil
  then show ?thesis
    by (simp add: create_audit_entry_def bind_exn_def Let_def)
next
  case (Cons a as)
  then have ne: "audit_chain s \<noteq> []" by simp
  then have "last (audit_chain s) = audit_chain s ! (length (audit_chain s) - 1)"
    by (simp add: last_conv_nth)
  moreover from ne have "length (audit_chain s) - 1 < length (audit_chain s)" by simp
  ultimately obtain h where h: "map_of (last (audit_chain s)) ''entry_hash'' = Some (AStr h)"
    using assms unfolding linked_def by metis
  from Cons h show ?thesis
    by (simp add: create_audit_entry_def bind_exn_def Let_def entry_getitem_def)
qed

lemma append_all_linked:
  "linked (audit_chain s) \<Longrightarrow>
   \<exists>s'. append_all lib s calls = Inr s' \<and> linked (audit_chain s') \<and>
        length (audit_chain s') = length (audit_chain s) + length calls \<and>
        take (length (audit_chain s)) (audit_chain s') = audit_chain s"
proof (induction calls arbitrary: s)
  case Nil
  then show ?case by simp
next
  case (Cons c cs)
  from create_audit_entry_step[OF Cons.prems]
  obtain e where e: "create_audit_entry lib (call_uuid c) (call_clock c) s
          (call_operation c) (call_data c) (call_result c) = Inr (e, s\<lparr>audit_chain := audit_chain s @ [e]\<rparr>)"
    and idx: "map_of e ''chain_index'' = Some (AInt (int (length (audit_chain s))))"
    and eh: "\<exists>h. map_of e ''entry_hash'' = Some (AStr h)"
    and ph: "map_of e ''previous_hash'' =
               (if audit_chain s = [] then Some (AStr ''0'')
                else map_of (last (audit_chain s)) ''entry_hash'')"
    by blast
  let ?s1 = "s\<lparr>audit_chain := audit_chain s @ [e]\<rparr>"
  have l1: "linked (audit_chain ?s1)"
    using linked_snoc[OF Cons.prems idx eh ph] by simp
  from Cons.IH[OF l1] obtain s' where s': "append_all lib ?s1 cs = Inr s'"
    "linked (audit_chain s')"
    "length (audit_chain s') = length (audit_chain ?s1) + length cs"
    "take (length (audit_chain ?s1)) (audit_chain s') = audit_chain ?s1"
    by blast
  have "take (length (audit_chain s)) (audit_chain s') = audit_chain s"
  proof -
    have "take (length (audit_chain s)) (take (length (audit_chain ?s1)) (audit_chain s')) = audit_chain s"
      using s'(4) by simp
    then show ?thesis by (simp add: min_def)
  qed
  with e s' show ?case
    by (simp add: bind_exn_def)
qed

lemma append_all_append:
  "append_all lib s (xs @ ys) = bind_exn (append_all lib s xs) (\<lambda>s1. append_all lib s1 ys)"
  by (induction xs arbitrary: s) (auto simp: bind_exn_def split: sum.splits)

lemma append_all_prefix:
  assumes l: "linked (audit_chain s)" and k: "k \<le> length calls"
    and fin: "append_all lib s calls = Inr s'"
  shows "\<exists>sk. append_all lib s (take k calls) = Inr sk \<and>
              audit_chain sk = take (length (audit_chain s) + k) (audit_chain s')"
proof -
  from append_all_linked[OF l, of lib "take k calls"]
  obtain sk where sk: "append_all lib s (take k calls) = Inr sk" "linked (audit_chain sk)"
    "length (audit_chain sk) = length (audit_chain s) + length (take k calls)"
    by blast
  from append_all_linked[OF sk(2), of lib "drop k calls"]
  obtain t where t: "append_all lib sk (drop k calls) = Inr t"
     "take (length (audit_chain sk)) (audit_chain t) = audit_chain sk"
    by blast
  have "append_all lib s (take k calls @ drop k calls) = Inr t"
    using sk(1) t(1) by (simp only: append_all_append) (simp add: bind_exn_def)
  with fin have "t = s'" by simp
  from k have "length (take k calls) = k" by simp
  with t(2) sk(3) \<open>t = s'\<close> have "audit_chain sk = take (length (audit_chain s) + k) (audit_chain s')"
    by simp
  with sk(1) show ?thesis by blast
qed

lemma verify_walk_links:
  "try_except (verify_walk prev rest) (\<lambda>e. Inr False) =
     (Inr (\<forall>i<length rest. \<exists>h. map_of ((prev # rest) ! i) ''entry_hash'' = Some h \<and>
                          map_of (rest ! i) ''previous_hash'' = Some h) :: exn + bool)"
proof (induction rest arbitrary: prev)
  case Nil
  then show ?case by (simp add: try_except_def)
next
  case (Cons entry rest)
  let ?P = "\<lambda>p r i. \<exists>h. map_of ((p # r) ! i) ''entry_hash'' = Some h \<and>
                          map_of (r ! i) ''previous_hash'' = Some h"
  have split: "(\<forall>i<length (entry # rest). ?P prev (entry # rest) i) \<longleftrightarrow>
        (?P prev (entry # rest) 0 \<and> (\<forall>i<length rest. ?P entry rest i))"
    by (auto simp: less_Suc_eq_0_disj)
  show ?case
  proof (cases "?P prev (entry # rest) 0")
    case True
    then show ?thesis
      using Cons.IH[of entry] unfolding split
      by (auto simp: bind_exn_def entry_getitem_def try_except_def split: option.splits)
  next
    case False
    then show ?thesis
      unfolding split
      by (auto simp: bind_exn_def entry_getitem_def try_except_def split: option.splits)
  qed
qed

lemma example_run:
  "append_all example_lib (initial_orchestrator ''c'' True True) example_calls =
     Inr ((initial_orchestrator ''c'' True True)\<lparr>audit_chain := example_chain\<rparr>)"
  by (simp add: example_calls_def example_chain_def example_lib_def example_clock_def
      initial_orchestrator_def create_audit_entry_def bind_exn_def Let_def entry_getitem_def
      audit_entry_json_def result_status_of_def)

lemma verify_audit_chain_links:
  "verify_audit_chain c =
     Inr (\<forall>i. 0 < i \<and> i < length c \<longrightarrow>
            (\<exists>h. map_of (c ! (i - 1)) ''entry_hash'' = Some h \<and>
                 map_of (c ! i) ''previous_hash'' = Some h))"
proof (cases c)
  case Nil
  then show ?thesis by (simp add: verify_audit_chain_def verify_body_def try_except_def)
next
  case (Cons first rest)
  have "(\<forall>i<length rest. \<exists>h. map_of ((first # rest) ! i) ''entry_hash'' = Some h \<and>
                          map_of (rest ! i) ''previous_hash'' = Some h) \<longleftrightarrow>
        (\<forall>i. 0 < i \<and> i < length (first # rest) \<longrightarrow>
            (\<exists>h. map_of ((first # rest) ! (i - 1)) ''entry_hash'' = Some h \<and>
                 map_of ((first # rest) ! i) ''previous_hash'' = Some h))"
    (is "?L \<longleftrightarrow> ?R")
  proof
    assume l: ?L
    show ?R
    proof (intro allI impI)
      fix i assume "0 < i \<and> i < length (first # rest)"
      then obtain j where "i = Suc j" "j < length rest" by (cases i) auto
      with l show "\<exists>h. map_of ((first # rest) ! (i - 1)) ''entry_hash'' = Some h \<and>
                 map_of ((first # rest) ! i) ''previous_hash'' = Some h" by simp
    qed
  next
    assume r: ?R
    show ?L
    proof (intro allI impI)
      fix i assume "i < length rest"
      then have "0 < Suc i \<and> Suc i < length (first # rest)" by simp
      with r have "\<exists>h. map_of ((first # rest) ! (Suc i - 1)) ''entry_hash'' = Some h \<and>
                 map_of ((first # rest) ! Suc i) ''previous_hash'' = Some h" by blast
      then show "\<exists>h. map_of ((first # rest) ! i) ''entry_hash'' = Some h \<and>
                          map_of (rest ! i) ''previous_hash'' = Some h" by simp
    qed
  qed
  with Cons show ?thesis
    by (simp add: verify_audit_chain_def verify_body_def verify_walk_links)
qed

lemma linked_verify: "linked c \<Longrightarrow> verify_audit_chain c = Inr True"
proof -
  assume l: "linked c"
  have "\<forall>i. 0 < i \<and> i < length c \<longrightarrow>
            (\<exists>h. map_of (c ! (i - 1)) ''entry_hash'' = Some h \<and>
                 map_of (c ! i) ''previous_hash'' = Some h)"
  proof (intro allI impI)
    fix i assume i: "0 < i \<and> i < length c"
    then have "i - 1 < length c" by arith
    with l obtain h where "map_of (c ! (i - 1)) ''entry_hash'' = Some (AStr h)"
      unfolding linked_def by blast
    moreover from l i have "map_of (c ! i) ''previous_hash'' = map_of (c ! (i - 1)) ''entry_hash''"
      unfolding linked_def by simp
    ultimately show "\<exists>h. map_of (c ! (i - 1)) ''entry_hash'' = Some h \<and>
                 map_of (c ! i) ''previous_hash'' = Some h" by simp
  qed
  then show ?thesis by (simp add: verify_audit_chain_links)
qed

text \<open>
  Claim C2. Starting from the empty chain, every sequence of \<open>_create_audit_entry\<close> calls
  succeeds and leaves a chain with one entry per call in which each entry's
  \<open>chain_index\<close> is its 0-based position, the first \<open>previous_hash\<close> is the sentinel
  \<open>"0"\<close>, every later \<open>previous_hash\<close> equals the \<open>entry_hash\<close> of the entry before it,
  and the chain after the first \<open>k\<close> calls is the prefix of length \<open>k\<close> of the final
  chain: no append modifies or removes an earlier entry.
\<close>

theorem audit_chain_linked_append_only:
  assumes "audit_chain self = []"
  shows "\<exists>self'. append_all lib self calls = Inr self' \<and>
           length (audit_chain self') = length calls \<and>
           (\<forall>i<length calls.
              map_of (audit_chain self' ! i) ''chain_index'' = Some (AInt (int i)) \<and>
              map_of (audit_chain self' ! i) ''previous_hash'' =
                (if i = 0 then Some (AStr ''0'')
                 else map_of (audit_chain self' ! (i - 1)) ''entry_hash'') \<and>
              (\<exists>h. map_of (audit_chain self' ! i) ''entry_hash'' = Some (AStr h))) \<and>
           (\<forall>k\<le>length calls. \<exists>sk. append_all lib self (take k calls) = Inr sk \<and>
              audit_chain sk = take k (audit_chain self'))"
proof -
  from assms have l: "linked (audit_chain self)" by (simp add: linked_Nil)
  from append_all_linked[OF l, of lib calls] assms
  obtain self' where s: "append_all lib self calls = Inr self'" "linked (audit_chain self')"
    "length (audit_chain self') = length calls"
    by auto
  have pre: "\<forall>k\<le>length calls. \<exists>sk. append_all lib self (take k calls) = Inr sk \<and>
              audit_chain sk = take k (audit_chain self')"
    using append_all_prefix[OF l _ s(1)] assms by simp
  from s(2,3) have "\<forall>i<length calls.
              map_of (audit_chain self' ! i) ''chain_index'' = Some (AInt (int i)) \<and>
              map_of (audit_chain self' ! i) ''previous_hash'' =
                (if i = 0 then Some (AStr ''0'')
                 else map_of (audit_chain self' ! (i - 1)) ''entry_hash'') \<and>
              (\<exists>h. map_of (audit_chain self' ! i) ''entry_hash'' = Some (AStr h))"
    unfolding linked_def by simp
  with s(1,3) pre show ?thesis by blast
qed

theorem audit_chain_linked_append_only_witness:
  "audit_chain (initial_orchestrator ''c'' True True) = [] \<and>
   (1::nat) < length example_calls \<and>
   (\<exists>self'. append_all example_lib (initial_orchestrator ''c'' True True) example_calls = Inr self' \<and>
      audit_chain self' = example_chain \<and>
      map_of (audit_chain self' ! 1) ''chain_index'' = Some (AInt 1) \<and>
      map_of (audit_chain self' ! 1) ''previous_hash'' = map_of (audit_chain self' ! 0) ''entry_hash'' \<and>
      map_of (audit_chain self' ! 0) ''previous_hash'' = Some (AStr ''0'') \<and>
      (\<exists>sk. append_all example_lib (initial_orchestrator ''c'' True True) (take 1 example_calls) = Inr sk \<and>
         audit_chain sk = take 1 (audit_chain self')))"
proof -
  have h: "audit_chain (initial_orchestrator ''c'' True True) = []"
    by (simp add: initial_orchestrator_def)
  have n: "(1::nat) < length example_calls" by (simp add: example_calls_def)
  from audit_chain_linked_append_only[OF h, of example_lib example_calls]
  obtain self' where s: "append_all example_lib (initial_orchestrator ''c'' True True) example_calls = Inr self'"
    and idx: "\<forall>i<length example_calls.
              map_of (audit_chain self' ! i) ''chain_index'' = Some (AInt (int i)) \<and>
              map_of (audit_chain self' ! i) ''previous_hash'' =
                (if i = 0 then Some (AStr ''0'')
                 else map_of (audit_chain self' ! (i - 1)) ''entry_hash'') \<and>
              (\<exists>h. map_of (audit_chain self' ! i) ''entry_hash'' = Some (AStr h))"
    and pre: "\<forall>k\<le>length example_calls. \<exists>sk.
              append_all example_lib (initial_orchestrator ''c'' True True) (take k example_calls) = Inr sk \<and>
              audit_chain sk = take k (audit_chain self')"
    by blast
  from s example_run have "self' = (initial_orchestrator ''c'' True True)\<lparr>audit_chain := example_chain\<rparr>" by simp
  then have c: "audit_chain self' = example_chain" by simp
  from n have n0: "(0::nat) < length example_calls" and n1: "(1::nat) \<le> length example_calls" by arith+
  from idx n have "map_of (audit_chain self' ! 1) ''chain_index'' = Some (AInt 1)"
    "map_of (audit_chain self' ! 1) ''previous_hash'' = map_of (audit_chain self' ! 0) ''entry_hash''"
    by force+
  moreover from idx n0 have "map_of (audit_chain self' ! 0) ''previous_hash'' = Some (AStr ''0'')"
    by force
  moreover from pre n1 have "\<exists>sk. append_all example_lib (initial_orchestrator ''c'' True True) (take 1 example_calls) = Inr sk \<and>
         audit_chain sk = take 1 (audit_chain self')" by blast
  ultimately show ?thesis using h n s c by blast
qed

text \<open>
  What \<open>_verify_audit_chain\<close> decides. After any sequence of appends from the empty
  chain, with no mutation, it returns true. On any chain it returns true exactly when
  every entry after the first has a \<open>previous_hash\<close> equal to the \<open>entry_hash\<close> of the
  entry before it (both keys present); no \<open>entry_hash\<close> is ever computed again. Hence
  two chains of the same length that agree on \<open>entry_hash\<close> and \<open>previous_hash\<close> at
  every position get the same verdict, whatever was done to the other hashed fields.
\<close>

lemma verify_true_iff_links:
  "(audit_chain self = [] \<and> append_all lib self calls = Inr self'
      \<longrightarrow> verify_audit_chain (audit_chain self') = Inr True) \<and>
   verify_audit_chain c =
     Inr (\<forall>i. 0 < i \<and> i < length c \<longrightarrow>
            (\<exists>h. map_of (c ! (i - 1)) ''entry_hash'' = Some h \<and>
                 map_of (c ! i) ''previous_hash'' = Some h)) \<and>
   (length c' = length c \<and>
    (\<forall>i<length c. map_of (c' ! i) ''entry_hash'' = map_of (c ! i) ''entry_hash'' \<and>
                  map_of (c' ! i) ''previous_hash'' = map_of (c ! i) ''previous_hash'')
      \<longrightarrow> verify_audit_chain c' = verify_audit_chain c)"
proof (intro conjI impI)
  assume a: "audit_chain self = [] \<and> append_all lib self calls = Inr self'"
  then have "linked (audit_chain self)" by (simp add: linked_Nil)
  from append_all_linked[OF this, of lib calls] a
  have "linked (audit_chain self')" by auto
  then show "verify_audit_chain (audit_chain self') = Inr True" by (rule linked_verify)
next
  show "verify_audit_chain c =
     Inr (\<forall>i. 0 < i \<and> i < length c \<longrightarrow>
            (\<exists>h. map_of (c ! (i - 1)) ''entry_hash'' = Some h \<and>
                 map_of (c ! i) ''previous_hash'' = Some h))"
    by (rule verify_audit_chain_links)
next
  assume a: "length c' = length c \<and>
    (\<forall>i<length c. map_of (c' ! i) ''entry_hash'' = map_of (c ! i) ''entry_hash'' \<and>
                  map_of (c' ! i) ''previous_hash'' = map_of (c ! i) ''previous_hash'')"
  have "(\<forall>i. 0 < i \<and> i < length c' \<longrightarrow>
            (\<exists>h. map_of (c' ! (i - 1)) ''entry_hash'' = Some h \<and>
                 map_of (c' ! i) ''previous_hash'' = Some h)) \<longleftrightarrow>
        (\<forall>i. 0 < i \<and> i < length c \<longrightarrow>
            (\<exists>h. map_of (c ! (i - 1)) ''entry_hash'' = Some h \<and>
                 map_of (c ! i) ''previous_hash'' = Some h))"
  proof -
    have "\<And>i. 0 < i \<and> i < length c \<Longrightarrow>
       map_of (c' ! (i - 1)) ''entry_hash'' = map_of (c ! (i - 1)) ''entry_hash'' \<and>
       map_of (c' ! i) ''previous_hash'' = map_of (c ! i) ''previous_hash''"
    proof -
      fix i assume i: "0 < i \<and> i < length c"
      then have "i - 1 < length c" by arith
      with a i show "map_of (c' ! (i - 1)) ''entry_hash'' = map_of (c ! (i - 1)) ''entry_hash'' \<and>
       map_of (c' ! i) ''previous_hash'' = map_of (c ! i) ''previous_hash''" by blast
    qed
    with a show ?thesis by auto
  qed
  then show "verify_audit_chain c' = verify_audit_chain c"
    by (simp only: verify_audit_chain_links)
qed

lemma example_chain_nth:
  "example_chain ! 0 = hd example_chain" "example_chain ! 1 = last example_chain"
  "length example_chain = 2"
  by (simp_all add: example_chain_def)

text \<open>
  On the example: the chain of two appends verifies, the chain with a rewritten
  \<open>operation\<close> gets the same verdict, and the chain with a forged link does not verify.
\<close>

lemma verify_true_iff_links_example:
  "audit_chain (initial_orchestrator ''c'' True True) = [] \<and>
   append_all example_lib (initial_orchestrator ''c'' True True) example_calls =
     Inr ((initial_orchestrator ''c'' True True)\<lparr>audit_chain := example_chain\<rparr>) \<and>
   verify_audit_chain example_chain = Inr True \<and>
   (0::nat) < 1 \<and> (1::nat) < length example_chain \<and>
   length tampered_chain = length example_chain \<and>
   verify_audit_chain tampered_chain = verify_audit_chain example_chain \<and>
   verify_audit_chain broken_chain = Inr False"
proof -
  let ?s = "initial_orchestrator ''c'' True True"
  have h: "audit_chain ?s = []" by (simp add: initial_orchestrator_def)
  note t = verify_true_iff_links[of ?s example_lib example_calls "?s\<lparr>audit_chain := example_chain\<rparr>"
      example_chain tampered_chain]
  from t h example_run have v: "verify_audit_chain example_chain = Inr True" by simp
  have same: "length tampered_chain = length example_chain \<and>
    (\<forall>i<length example_chain.
       map_of (tampered_chain ! i) ''entry_hash'' = map_of (example_chain ! i) ''entry_hash'' \<and>
       map_of (tampered_chain ! i) ''previous_hash'' = map_of (example_chain ! i) ''previous_hash'')"
    by (auto simp: tampered_chain_def example_chain_def less_Suc_eq numeral_2_eq_2)
  with t have tv: "verify_audit_chain tampered_chain = verify_audit_chain example_chain" by blast
  have "\<not> (\<forall>i. 0 < i \<and> i < length broken_chain \<longrightarrow>
            (\<exists>h. map_of (broken_chain ! (i - 1)) ''entry_hash'' = Some h \<and>
                 map_of (broken_chain ! i) ''previous_hash'' = Some h))"
  proof
    assume "\<forall>i. 0 < i \<and> i < length broken_chain \<longrightarrow>
            (\<exists>h. map_of (broken_chain ! (i - 1)) ''entry_hash'' = Some h \<and>
                 map_of (broken_chain ! i) ''previous_hash'' = Some h)"
    then have "0 < (1::nat) \<and> 1 < length broken_chain \<longrightarrow>
            (\<exists>h. map_of (broken_chain ! (1 - 1)) ''entry_hash'' = Some h \<and>
                 map_of (broken_chain ! 1) ''previous_hash'' = Some h)" by blast
    then show False by (simp add: broken_chain_def example_chain_def)
  qed
  with verify_true_iff_links[of ?s example_lib example_calls "?s\<lparr>audit_chain := example_chain\<rparr>"
      broken_chain tampered_chain]
  have b: "verify_audit_chain broken_chain = Inr False" by simp
  from h example_run v same tv b show ?thesis by (simp add: example_chain_nth)
qed

text \<open>
  Claim C1 fails on the code, and so does what the code says of itself
  (\<open>_create_audit_entry\<close>: "Create tamper-proof audit trail entry", "Create entry hash
  for chain integrity"; \<open>_verify_audit_chain\<close>: "Verify integrity of the entire audit
  chain"). In the chain of two appends, the hashed field \<open>operation\<close> of the first entry
  is rewritten from \<open>store\<close> to \<open>delete\<close> after the append, and \<open>_verify_audit_chain\<close>
  still returns true.
\<close>

theorem verify_misses_mutation:
  "append_all example_lib (initial_orchestrator ''c'' True True) example_calls =
     Inr ((initial_orchestrator ''c'' True True)\<lparr>audit_chain := example_chain\<rparr>) \<and>
   map_of (example_chain ! 0) ''operation'' = Some (AStr ''store'') \<and>
   map_of (tampered_chain ! 0) ''operation'' = Some (AStr ''delete'') \<and>
   verify_audit_chain tampered_chain = Inr True"
  using example_run
  by (simp add: tampered_chain_def example_chain_def verify_audit_chain_def verify_body_def
      try_except_def bind_exn_def entry_getitem_def)

text \<open>
  Claim C9, as amended. \<open>_verify_audit_chain\<close> never raises: it always returns a boolean,
  and when the walk finds a broken link or an exception is raised inside it, the boolean
  is false.
\<close>

theorem verify_never_raises:
  "(\<exists>b. verify_audit_chain chain = Inr b) \<and>
   (verify_body chain = Inr False \<or> (\<exists>e. verify_body chain = Inl e)
      \<longrightarrow> verify_audit_chain chain = Inr False)"
  by (auto simp: verify_audit_chain_def try_except_def split: sum.splits)

theorem verify_never_raises_witness:
  "verify_body broken_chain = Inr False \<and> verify_audit_chain broken_chain = Inr False"
proof -
  have "verify_body broken_chain = Inr False"
    by (simp add: broken_chain_def example_chain_def verify_body_def bind_exn_def entry_getitem_def)
  with verify_never_raises[of broken_chain] show ?thesis by simp
qed

text \<open>
  Claim C9 as stated fails: on a chain with a forged link the walk returns false, on a
  chain whose second entry has no \<open>previous_hash\<close> the walk raises \<open>KeyError\<close>, and in both
  cases \<open>_verify_audit_chain\<close> returns the plain boolean false; nothing is raised.
\<close>

theorem verify_masks_failure:
  "verify_body broken_chain = Inr False \<and> verify_audit_chain broken_chain = Inr False \<and>
   verify_body keyless_chain = Inl (KeyError ''previous_hash'') \<and>
   verify_audit_chain keyless_chain = Inr False"
  by (simp add: broken_chain_def keyless_chain_def example_chain_def verify_audit_chain_def
      verify_body_def try_except_def bind_exn_def entry_getitem_def)

section \<open>The result merger\<close>

lemma item_hashes_simps:
  "item_hashes lib [] = {}"
  "item_hashes lib ((p, JObj kvs) # rest) = insert (item_content_hash lib kvs) (item_hashes lib rest)"
  "item_hashes lib (xs @ ys) = item_hashes lib xs \<union> item_hashes lib ys"
  by (auto simp: item_hashes_def has_hash_def)

lemma merge_provider_first_seen:
  "merge_provider lib p rs acc = Inr acc' \<Longrightarrow>
     fst acc' = fst acc @ first_seen lib (map (Pair p) rs) (snd acc) \<and>
     snd acc' = snd acc \<union> item_hashes lib (map (Pair p) rs) \<and>
     (\<forall>x \<in> set rs. \<exists>kvs. x = JObj kvs)"
proof (induction rs arbitrary: acc)
  case Nil
  then show ?case by (simp add: item_hashes_simps)
next
  case (Cons x rs)
  from Cons.prems obtain kvs where x: "x = JObj kvs"
    by (cases x) simp_all
  from Cons.prems x have enc: "utf8_encodes lib (item_content_str lib kvs)"
    by (simp split: if_splits)
  show ?case
  proof (cases "item_content_hash lib kvs \<in> snd acc")
    case True
    with Cons.prems x enc have "merge_provider lib p rs acc = Inr acc'" by simp
    from Cons.IH[OF this] True x show ?thesis
      by (auto simp: item_hashes_simps)
  next
    case False
    let ?acc1 = "(fst acc @ [with_source p (item_content_hash lib kvs) kvs],
                  insert (item_content_hash lib kvs) (snd acc))"
    from Cons.prems x False enc have "merge_provider lib p rs ?acc1 = Inr acc'"
      by (simp add: Let_def)
    from Cons.IH[OF this] False x show ?thesis
      by (auto simp: item_hashes_simps)
  qed
qed

lemma first_seen_append:
  "first_seen lib (xs @ ys) seen =
     first_seen lib xs seen @ first_seen lib ys (seen \<union> item_hashes lib xs)"
proof (induction xs arbitrary: seen)
  case Nil
  then show ?case by (simp add: item_hashes_simps)
next
  case (Cons item xs)
  obtain p x where item: "item = (p, x)" by (cases item)
  show ?case
  proof (cases x)
    case (JObj kvs)
    with item Cons.IH show ?thesis
      by (auto simp: item_hashes_simps insert_absorb)
  next
    case JNull
    with item Cons.IH[of seen] show ?thesis by (simp add: item_hashes_def has_hash_def)
  next
    case (JBool b)
    with item Cons.IH[of seen] show ?thesis by (simp add: item_hashes_def has_hash_def)
  next
    case (JNum n)
    with item Cons.IH[of seen] show ?thesis by (simp add: item_hashes_def has_hash_def)
  next
    case (JStr s)
    with item Cons.IH[of seen] show ?thesis by (simp add: item_hashes_def has_hash_def)
  next
    case (JArr xs)
    with item Cons.IH[of seen] show ?thesis by (simp add: item_hashes_def has_hash_def)
  next
    case (PyObject s)
    with item Cons.IH[of seen] show ?thesis by (simp add: item_hashes_def has_hash_def)
  qed
qed

lemma merge_loop_step:
  "merge_loop lib (pr # rest) acc =
     bind_exn (provider_items (snd pr))
       (\<lambda>rs. bind_exn (merge_provider lib (fst pr) rs acc) (\<lambda>acc'. merge_loop lib rest acc'))"
  by (simp add: provider_items_def bind_exn_def)

lemma merge_loop_first_seen:
  "merge_loop lib results acc = Inr acc' \<Longrightarrow>
     fst acc' = fst acc @ first_seen lib (flat_items results) (snd acc) \<and>
     (\<forall>pr \<in> set results. \<exists>rs. provider_items (snd pr) = Inr rs \<and> (\<forall>x \<in> set rs. \<exists>kvs. x = JObj kvs))"
proof (induction results arbitrary: acc)
  case Nil
  then show ?case by (simp add: flat_items_def)
next
  case (Cons pr rest)
  from Cons.prems obtain rs acc1 where
    rs: "provider_items (snd pr) = Inr rs" and
    m1: "merge_provider lib (fst pr) rs acc = Inr acc1" and
    m2: "merge_loop lib rest acc1 = Inr acc'"
    by (auto simp only: merge_loop_step bind_exn_def split: sum.splits)
  from merge_provider_first_seen[OF m1] have
    a1: "fst acc1 = fst acc @ first_seen lib (map (Pair (fst pr)) rs) (snd acc)"
    and s1: "snd acc1 = snd acc \<union> item_hashes lib (map (Pair (fst pr)) rs)"
    and o1: "\<forall>x \<in> set rs. \<exists>kvs. x = JObj kvs"
    by simp_all
  from Cons.IH[OF m2] have
    a2: "fst acc' = fst acc1 @ first_seen lib (flat_items rest) (snd acc1)"
    and o2: "\<forall>pr \<in> set rest. \<exists>rs. provider_items (snd pr) = Inr rs \<and> (\<forall>x \<in> set rs. \<exists>kvs. x = JObj kvs)"
    by simp_all
  have "flat_items (pr # rest) = map (Pair (fst pr)) rs @ flat_items rest"
    using rs by (simp add: flat_items_def)
  with a1 a2 s1 have "fst acc' = fst acc @ first_seen lib (flat_items (pr # rest)) (snd acc)"
    by (simp add: first_seen_append)
  with rs o1 o2 show ?case by simp
qed

lemma merge_search_results_first_seen:
  "merge_search_results lib results = Inr merged \<Longrightarrow>
     merged = first_seen lib (flat_items results) {}"
proof -
  assume "merge_search_results lib results = Inr merged"
  then obtain acc' where "merge_loop lib results ([], {}) = Inr acc'" "fst acc' = merged"
    by (auto simp: merge_search_results_def bind_exn_def split: sum.splits)
  with merge_loop_first_seen[of lib results "([], {})" acc'] show ?thesis by simp
qed

lemma with_source_lookup:
  "map_of (with_source p h kvs) ''content_hash'' = Some (JStr h)"
  "map_of (with_source p h kvs) ''source_provider'' = Some (JStr p)"
  "map_of (with_source p h kvs) ''content'' = map_of kvs ''content''"
  "map_of (with_source p h kvs) ''text'' = map_of kvs ''text''"
  by (simp_all add: with_source_def AList.update_conv')

lemma with_source_content_hash:
  "item_content_hash lib (with_source p h kvs) = item_content_hash lib kvs"
  by (simp add: item_content_hash_def dict_get_def with_source_lookup)

lemma first_seen_origin:
  "e \<in> set (first_seen lib items seen) \<Longrightarrow>
     \<exists>p kvs. (p, JObj kvs) \<in> set items \<and> item_content_hash lib kvs \<notin> seen \<and>
             e = with_source p (item_content_hash lib kvs) kvs"
proof (induction items arbitrary: seen)
  case Nil
  then show ?case by simp
next
  case (Cons item items)
  obtain p x where item: "item = (p, x)" by (cases item)
  show ?case
  proof (cases x)
    case (JObj kvs)
    show ?thesis
    proof (cases "item_content_hash lib kvs \<in> seen")
      case True
      with Cons.prems item JObj have "e \<in> set (first_seen lib items seen)" by simp
      from Cons.IH[OF this] show ?thesis by auto
    next
      case False
      with Cons.prems item JObj have
        "e = with_source p (item_content_hash lib kvs) kvs \<or>
         e \<in> set (first_seen lib items (insert (item_content_hash lib kvs) seen))" by simp
      then show ?thesis
      proof
        assume "e = with_source p (item_content_hash lib kvs) kvs"
        with False item JObj show ?thesis by auto
      next
        assume "e \<in> set (first_seen lib items (insert (item_content_hash lib kvs) seen))"
        from Cons.IH[OF this] show ?thesis by auto
      qed
    qed
  qed (use Cons item in \<open>auto\<close>)
qed

lemma first_seen_distinct:
  "distinct (map (\<lambda>e. map_of e ''content_hash'') (first_seen lib items seen))"
proof (induction items arbitrary: seen)
  case Nil
  then show ?case by simp
next
  case (Cons item items)
  obtain p x where item: "item = (p, x)" by (cases item)
  show ?case
  proof (cases x)
    case (JObj kvs)
    show ?thesis
    proof (cases "item_content_hash lib kvs \<in> seen")
      case True
      with item JObj Cons.IH show ?thesis by simp
    next
      case False
      let ?h = "item_content_hash lib kvs"
      have "Some (JStr ?h) \<notin> (\<lambda>e. map_of e ''content_hash'') ` set (first_seen lib items (insert ?h seen))"
      proof
        assume "Some (JStr ?h) \<in> (\<lambda>e. map_of e ''content_hash'') ` set (first_seen lib items (insert ?h seen))"
        then obtain e where e: "e \<in> set (first_seen lib items (insert ?h seen))"
          and eh: "map_of e ''content_hash'' = Some (JStr ?h)" by auto
        from first_seen_origin[OF e] obtain q kvs' where
          "item_content_hash lib kvs' \<notin> insert ?h seen"
          "e = with_source q (item_content_hash lib kvs') kvs'" by blast
        with eh show False by (simp add: with_source_lookup)
      qed
      with False item JObj Cons.IH show ?thesis by (simp add: with_source_lookup)
    qed
  qed (use Cons item in \<open>auto\<close>)
qed

lemma has_hash_simps:
  "has_hash lib h (p, JObj kvs) = (item_content_hash lib kvs = h)"
  "has_hash lib h (p, JNull) = False"
  "has_hash lib h (p, JBool b) = False"
  "has_hash lib h (p, JNum n) = False"
  "has_hash lib h (p, JStr s) = False"
  "has_hash lib h (p, JArr xs) = False"
  "has_hash lib h (p, PyObject s) = False"
  by (simp_all add: has_hash_def)

lemma first_seen_filter:
  "filter (\<lambda>e. map_of e ''content_hash'' = Some (JStr h)) (first_seen lib items seen) =
     (if h \<in> seen then []
      else case find (has_hash lib h) items of
             None \<Rightarrow> []
           | Some item \<Rightarrow> (case snd item of JObj kvs \<Rightarrow> [with_source (fst item) h kvs] | _ \<Rightarrow> []))"
proof (induction items arbitrary: seen)
  case Nil
  then show ?case by simp
next
  case (Cons item items)
  obtain p x where item: "item = (p, x)" by (cases item)
  show ?case
  proof (cases x)
    case (JObj kvs)
    with item Cons.IH show ?thesis
      by (auto simp: has_hash_simps with_source_lookup)
  qed (use Cons item in \<open>auto simp: has_hash_simps\<close>)
qed

lemma flat_items_member:
  "(p, x) \<in> set (flat_items results) \<longleftrightarrow>
     (\<exists>pr items. (p, pr) \<in> set results \<and> map_of pr ''status'' = Some (JStr ''success'') \<and>
        py_iter (dict_get pr ''results'' (JArr [])) = Inr items \<and> x \<in> set items)"
  by (force simp: flat_items_def provider_items_def split: sum.splits if_splits)

lemma merge_loop_filter_success:
  "merge_loop lib (filter (\<lambda>pr. map_of (snd pr) ''status'' = Some (JStr ''success'')) results) acc =
     merge_loop lib results acc"
proof (induction results arbitrary: acc)
  case Nil
  then show ?case by simp
next
  case (Cons pr rest)
  then show ?case
    by (cases "map_of (snd pr) ''status'' = Some (JStr ''success'')") (simp_all add: bind_exn_def split: sum.splits)
qed

text \<open>
  Claim C10. When \<open>_merge_search_results\<close> returns, every element of the output comes
  from a result of a provider whose status is \<open>success\<close> (the result extended with
  \<open>source_provider\<close> and \<open>content_hash\<close>), its \<open>content_hash\<close> is the SHA-256 hex digest
  of its content string \<open>str(e.get('content', e.get('text', '')))\<close>, the \<open>content_hash\<close>
  values of the output are pairwise distinct, and dropping every outcome with another
  status from the input gives the same output.
\<close>

theorem merge_only_success_hashed_distinct:
  assumes "merge_search_results lib results = Inr merged"
  shows "(\<forall>e \<in> set merged. \<exists>p pr items kvs.
            (p, pr) \<in> set results \<and> map_of pr ''status'' = Some (JStr ''success'') \<and>
            py_iter (dict_get pr ''results'' (JArr [])) = Inr items \<and> JObj kvs \<in> set items \<and>
            e = with_source p (item_content_hash lib kvs) kvs) \<and>
         (\<forall>e \<in> set merged.
            map_of e ''content_hash'' =
              Some (JStr (sha256_hexdigest lib
                (py_str lib (dict_get e ''content'' (dict_get e ''text'' (JStr []))))))) \<and>
         distinct (map (\<lambda>e. map_of e ''content_hash'') merged) \<and>
         merge_search_results lib
           (filter (\<lambda>pr. map_of (snd pr) ''status'' = Some (JStr ''success'')) results) = Inr merged"
proof -
  from assms have m: "merged = first_seen lib (flat_items results) {}"
    by (rule merge_search_results_first_seen)
  have origin: "\<And>e. e \<in> set merged \<Longrightarrow> \<exists>p kvs. (p, JObj kvs) \<in> set (flat_items results) \<and>
                  e = with_source p (item_content_hash lib kvs) kvs"
    using first_seen_origin[of _ lib "flat_items results" "{}"] m by blast
  have a: "\<forall>e \<in> set merged. \<exists>p pr items kvs.
            (p, pr) \<in> set results \<and> map_of pr ''status'' = Some (JStr ''success'') \<and>
            py_iter (dict_get pr ''results'' (JArr [])) = Inr items \<and> JObj kvs \<in> set items \<and>
            e = with_source p (item_content_hash lib kvs) kvs"
  proof
    fix e assume "e \<in> set merged"
    from origin[OF this] obtain p kvs where "(p, JObj kvs) \<in> set (flat_items results)"
      "e = with_source p (item_content_hash lib kvs) kvs" by blast
    then show "\<exists>p pr items kvs.
            (p, pr) \<in> set results \<and> map_of pr ''status'' = Some (JStr ''success'') \<and>
            py_iter (dict_get pr ''results'' (JArr [])) = Inr items \<and> JObj kvs \<in> set items \<and>
            e = with_source p (item_content_hash lib kvs) kvs"
      unfolding flat_items_member by blast
  qed
  have b: "\<forall>e \<in> set merged.
            map_of e ''content_hash'' =
              Some (JStr (sha256_hexdigest lib
                (py_str lib (dict_get e ''content'' (dict_get e ''text'' (JStr []))))))"
  proof
    fix e assume "e \<in> set merged"
    from origin[OF this] obtain p kvs where e: "e = with_source p (item_content_hash lib kvs) kvs"
      by blast
    have "map_of e ''content_hash'' = Some (JStr (item_content_hash lib e))"
      unfolding e by (simp add: with_source_lookup with_source_content_hash)
    then show "map_of e ''content_hash'' =
              Some (JStr (sha256_hexdigest lib
                (py_str lib (dict_get e ''content'' (dict_get e ''text'' (JStr []))))))"
      by (simp add: item_content_hash_def)
  qed
  have c: "distinct (map (\<lambda>e. map_of e ''content_hash'') merged)"
    unfolding m by (rule first_seen_distinct)
  have d: "merge_search_results lib
           (filter (\<lambda>pr. map_of (snd pr) ''status'' = Some (JStr ''success'')) results) = Inr merged"
    using assms by (simp add: merge_search_results_def merge_loop_filter_success)
  from a b c d show ?thesis by blast
qed

text \<open>
  Claim C5, as amended. When two different providers, both successful, each return a
  result with the same content hash \<open>h\<close> (as identical content gives), the merged output
  has exactly one entry with that hash: the first result with hash \<open>h\<close> in iteration
  order, extended with \<open>content_hash\<close> and with one \<open>source_provider\<close>, the name of the
  provider that returned that first result. One name is recorded, so not both.
\<close>

theorem merge_identical_content_first_seen:
  assumes "merge_search_results lib results = Inr merged"
    and "(p1, pr1) \<in> set results" and "map_of pr1 ''status'' = Some (JStr ''success'')"
    and "py_iter (dict_get pr1 ''results'' (JArr [])) = Inr items1" and "JObj a \<in> set items1"
    and "(p2, pr2) \<in> set results" and "map_of pr2 ''status'' = Some (JStr ''success'')"
    and "py_iter (dict_get pr2 ''results'' (JArr [])) = Inr items2" and "JObj b \<in> set items2"
    and "p1 \<noteq> p2"
    and "item_content_hash lib a = h" and "item_content_hash lib b = h"
  shows "\<exists>p0 kvs0.
           find (has_hash lib h) (flat_items results) = Some (p0, JObj kvs0) \<and>
           filter (\<lambda>e. map_of e ''content_hash'' = Some (JStr h)) merged = [with_source p0 h kvs0] \<and>
           map_of (with_source p0 h kvs0) ''source_provider'' = Some (JStr p0) \<and>
           (p0 \<noteq> p1 \<or> p0 \<noteq> p2)"
proof -
  from assms(1) have m: "merged = first_seen lib (flat_items results) {}"
    by (rule merge_search_results_first_seen)
  from assms(2-5) have "(p1, JObj a) \<in> set (flat_items results)"
    unfolding flat_items_member by blast
  moreover from assms(11) have "has_hash lib h (p1, JObj a)" by (simp add: has_hash_def)
  ultimately obtain item where f: "find (has_hash lib h) (flat_items results) = Some item"
    by (cases "find (has_hash lib h) (flat_items results)") (auto simp: find_None_iff)
  then have "has_hash lib h item" by (auto simp: find_Some_iff)
  then obtain p0 kvs0 where item: "item = (p0, JObj kvs0)"
    by (cases item, cases "snd item") (auto simp: has_hash_def)
  have "filter (\<lambda>e. map_of e ''content_hash'' = Some (JStr h)) merged = [with_source p0 h kvs0]"
    unfolding m first_seen_filter using f item by simp
  with f item assms(10) show ?thesis
    by (auto simp: with_source_lookup)
qed

lemmas merge_eval =
  merge_search_results_def bind_exn_def py_iter_def dict_get_def item_content_hash_def
  item_content_str_def with_source_def py_str_def example_lib_def Let_def

lemma example_merge:
  "merge_search_results example_lib example_search_results = Inr example_merged"
  by (simp add: example_search_results_def example_merged_def merge_eval)

lemma example_mixed_merge:
  "merge_search_results example_lib example_mixed_results = Inr example_mixed_merged"
  by (simp add: example_mixed_results_def example_mixed_merged_def merge_eval)

text \<open>
  Claim C5 as stated fails: Mem0 and SuperMemory both return \<open>evidence-17\<close>; the one
  merged entry for it is the payload with \<open>source_provider = mem0\<close> and the hash, and
  nothing in it names SuperMemory.
\<close>

theorem merge_records_one_source:
  "merge_search_results example_lib example_search_results = Inr example_merged \<and>
   filter (\<lambda>e. map_of e ''content_hash'' = Some (JStr ''sha256:evidence-17'')) example_merged =
     [[(''content'', JStr ''evidence-17''), (''source_provider'', JStr ''mem0''),
       (''content_hash'', JStr ''sha256:evidence-17'')]]"
  using example_merge by (simp add: example_merged_def)

text \<open>The hypotheses of the theorem for C5 hold on the example.\<close>

theorem merge_identical_content_first_seen_witness:
  "merge_search_results example_lib example_search_results = Inr example_merged \<and>
   (''mem0'', snd (example_search_results ! 0)) \<in> set example_search_results \<and>
   map_of (snd (example_search_results ! 0)) ''status'' = Some (JStr ''success'') \<and>
   py_iter (dict_get (snd (example_search_results ! 0)) ''results'' (JArr [])) =
     Inr [JObj [(''content'', JStr ''evidence-17'')]] \<and>
   (''supermemory'', snd (example_search_results ! 1)) \<in> set example_search_results \<and>
   map_of (snd (example_search_results ! 1)) ''status'' = Some (JStr ''success'') \<and>
   py_iter (dict_get (snd (example_search_results ! 1)) ''results'' (JArr [])) =
     Inr [JObj [(''content'', JStr ''evidence-17'')], JObj [(''content'', JStr ''evidence-22'')]] \<and>
   item_content_hash example_lib [(''content'', JStr ''evidence-17'')] = ''sha256:evidence-17'' \<and>
   (\<exists>p0 kvs0.
      find (has_hash example_lib ''sha256:evidence-17'') (flat_items example_search_results) =
        Some (p0, JObj kvs0) \<and>
      filter (\<lambda>e. map_of e ''content_hash'' = Some (JStr ''sha256:evidence-17'')) example_merged =
        [with_source p0 ''sha256:evidence-17'' kvs0] \<and>
      map_of (with_source p0 ''sha256:evidence-17'' kvs0) ''source_provider'' = Some (JStr p0) \<and>
      (p0 \<noteq> ''mem0'' \<or> p0 \<noteq> ''supermemory''))"
proof -
  let ?a = "[(''content'', JStr ''evidence-17'')]"
  have h1: "(''mem0'', snd (example_search_results ! 0)) \<in> set example_search_results"
    and h2: "map_of (snd (example_search_results ! 0)) ''status'' = Some (JStr ''success'')"
    and h3: "py_iter (dict_get (snd (example_search_results ! 0)) ''results'' (JArr [])) =
               Inr [JObj ?a]"
    and h4: "(''supermemory'', snd (example_search_results ! 1)) \<in> set example_search_results"
    and h5: "map_of (snd (example_search_results ! 1)) ''status'' = Some (JStr ''success'')"
    and h6: "py_iter (dict_get (snd (example_search_results ! 1)) ''results'' (JArr [])) =
               Inr [JObj ?a, JObj [(''content'', JStr ''evidence-22'')]]"
    by (simp_all add: example_search_results_def py_iter_def dict_get_def)
  have h7: "item_content_hash example_lib ?a = ''sha256:evidence-17''"
    by (simp add: item_content_hash_def dict_get_def py_str_def example_lib_def)
  have m1: "JObj ?a \<in> set [JObj ?a]" by simp
  have m2: "JObj ?a \<in> set [JObj ?a, JObj [(''content'', JStr ''evidence-22'')]]" by simp
  have ne: "''mem0'' \<noteq> ''supermemory''" by simp
  from merge_identical_content_first_seen[OF example_merge h1 h2 h3 m1 h4 h5 h6 m2 ne h7 h7]
    example_merge h1 h2 h3 h4 h5 h6 h7
  show ?thesis by blast
qed

text \<open>The theorem for C10 on an input with a failed outcome that carries a record.\<close>

theorem merge_only_success_hashed_distinct_witness:
  "merge_search_results example_lib example_mixed_results = Inr example_mixed_merged \<and>
   hd example_mixed_merged \<in> set example_mixed_merged \<and>
   (\<exists>p pr items kvs.
      (p, pr) \<in> set example_mixed_results \<and> map_of pr ''status'' = Some (JStr ''success'') \<and>
      py_iter (dict_get pr ''results'' (JArr [])) = Inr items \<and> JObj kvs \<in> set items \<and>
      hd example_mixed_merged = with_source p (item_content_hash example_lib kvs) kvs) \<and>
   map_of (hd example_mixed_merged) ''content_hash'' =
     Some (JStr (sha256_hexdigest example_lib
       (py_str example_lib
          (dict_get (hd example_mixed_merged) ''content''
             (dict_get (hd example_mixed_merged) ''text'' (JStr [])))))) \<and>
   distinct (map (\<lambda>e. map_of e ''content_hash'') example_mixed_merged) \<and>
   merge_search_results example_lib
     (filter (\<lambda>pr. map_of (snd pr) ''status'' = Some (JStr ''success'')) example_mixed_results) =
     Inr example_mixed_merged"
proof -
  have mem: "hd example_mixed_merged \<in> set example_mixed_merged"
    by (simp add: example_mixed_merged_def)
  from merge_only_success_hashed_distinct[OF example_mixed_merge] mem example_mixed_merge
  show ?thesis by blast
qed

section \<open>Federated search\<close>

lemma create_audit_entry_state:
  "create_audit_entry lib u clk self opn d r = Inr (e, self1) \<Longrightarrow>
     self1 = self\<lparr>audit_chain := audit_chain self @ [e]\<rparr>"
  by (auto simp: create_audit_entry_def bind_exn_def Let_def split: sum.splits list.splits)

lemma py_slice_to_nonneg:
  "0 \<le> limit \<Longrightarrow> py_slice_to xs limit = take (nat (min limit (int (length xs)))) xs"
  by (simp add: py_slice_to_def min_def)

text \<open>
  Claim C8. When \<open>search_memory_unified\<close> returns, for a limit that is not negative,
  \<open>results_by_provider\<close> holds the outcomes of the dispatched backends as they came,
  the merge of all of them succeeded with some list \<open>merged\<close>, \<open>total_found\<close> is its
  length, and \<open>merged_results\<close> is its first \<open>min(limit, total)\<close> elements: the
  truncation is applied to the deduplicated merge.
\<close>

theorem search_truncates_after_merge:
  assumes "search_memory_unified lib env self query cid limit provider = (Inr r, self')"
    and "0 \<le> limit"
  shows "\<exists>merged.
           merge_search_results lib (results_by_provider r) = Inr merged \<and>
           merged_results r = take (nat (min limit (int (length merged)))) merged \<and>
           total_found r = int (length merged) \<and>
           results_by_provider r = search_outcomes lib env self provider"
proof -
  let ?results = "\<lambda>s. (if dispatch_mem0 s provider then [(''mem0'', search_mem0 lib env)] else []) @
             (if dispatch_supermemory s provider
              then [(''supermemory'', search_supermemory lib env)] else [])"
  from assms(1) obtain e self1 merged idx where
    c: "create_audit_entry lib (env_uuid env) (env_audit_clock env) self
          ''search_memory_unified''
          (JObj [(''query'', JStr query),
                  (''case_id'', JStr (case cid of None \<Rightarrow> case_id self
                       | Some c \<Rightarrow> if c = [] then case_id self else c)),
                  (''limit'', JNum (of_int limit)),
                  (''provider'', JStr (provider_value provider))]) ResultNone = Inr (e, self1)"
    and m: "merge_search_results lib (?results self1) = Inr merged"
    and r: "results_by_provider r = ?results self1"
       "merged_results r = py_slice_to merged limit"
       "total_found r = int (length merged)"
    by (auto simp: search_memory_unified_def Let_def bind_exn_def
        split: sum.splits prod.splits)
  from create_audit_entry_state[OF c] have "?results self1 = ?results self"
    by (simp add: dispatch_mem0_def dispatch_supermemory_def)
  with m r assms(2) show ?thesis
    by (simp add: py_slice_to_nonneg search_outcomes_def)
qed

section \<open>Federated store and the containment of backend failures\<close>







lemma linked_last_hash:
  assumes "linked c" and "c \<noteq> []"
  shows "\<exists>h. map_of (last c) ''entry_hash'' = Some (AStr h)"
proof -
  from assms(2) have "last c = c ! (length c - 1)" "length c - 1 < length c"
    by (simp_all add: last_conv_nth)
  with assms(1) show ?thesis unfolding linked_def by metis
qed

lemma create_audit_entry_linked:
  assumes "linked (audit_chain self)"
  shows "\<exists>e. create_audit_entry lib u clk self opn d r =
               Inr (e, self\<lparr>audit_chain := audit_chain self @ [e]\<rparr>) \<and>
             entry_getitem e ''chain_index'' = Inr (AInt (int (length (audit_chain self))))"
proof (cases "audit_chain self")
  case Nil
  then show ?thesis
    by (simp add: create_audit_entry_def bind_exn_def Let_def entry_getitem_def)
next
  case (Cons a as)
  then have "audit_chain self \<noteq> []" by simp
  from linked_last_hash[OF assms this] obtain h where
    "map_of (last (audit_chain self)) ''entry_hash'' = Some (AStr h)" by blast
  with Cons show ?thesis
    by (simp add: create_audit_entry_def bind_exn_def Let_def entry_getitem_def)
qed





lemma sm_payload_not_encodable:
  "\<not> json_encodable
       (JObj [(''content'', JStr content),
              (''metadata'', JObj (AList.update ''tenant_id'' t (asdict metadata))),
              (''tenant_id'', JStr ''case-1fdv-23-0001009'')])"
  by (simp add: asdict_def)

lemma sm_store_memory_error:
  "sm_store_memory lib env content (AList.update ''tenant_id'' t (asdict metadata)) =
     JObj [(''error'', JStr (exn_str lib TypeError)), (''status'', JStr ''failed'')]"
  unfolding sm_store_memory_def Let_def using sm_payload_not_encodable[of content t metadata]
  by simp


lemma store_supermemory_outcome:
  "sm_enter env = None \<Longrightarrow> sm_exit env = None \<Longrightarrow>
     store_supermemory lib env content metadata =
       [(''status'', JStr ''failed''), (''error'', JStr (exn_str lib TypeError)),
        (''provider'', JStr ''supermemory'')]"
  unfolding store_supermemory_def Let_def sm_store_memory_error
  by (simp add: bind_exn_def sm_session_def py_contains_def json_getitem_def)



lemma store_unfold:
  assumes "linked (audit_chain self)" and enc: "utf8_encodes lib content"
  shows "\<exists>r self'. store_memory_unified lib env self content metadata provider = (Inr r, self') \<and>
           sr_results r = store_outcomes lib env self content metadata provider \<and>
           sr_providers_used r = map fst (store_outcomes lib env self content metadata provider) \<and>
           sr_status r =
             (if \<exists>p outcome. (p, outcome) \<in> set (store_outcomes lib env self content metadata provider) \<and>
                   \<not> store_failed outcome
              then ''success'' else ''failed'')"
proof -
  have h: "create_forensic_hash lib content = Inr (sha256_hexdigest lib content)"
    using enc by (simp add: create_forensic_hash_def)
  let ?md = "metadata
            \<lparr>hash_sha256 := sha256_hexdigest lib content,
             timestamp_hst := now_hst (env_now env),
             timestamp_utc := now_utc (env_now env),
             chain_of_custody :=
               chain_of_custody metadata @ [''stored_by_orchestrator_'' @ now_iso (env_now env)]\<rparr>"
  let ?data = "JObj [(''content_length'', JNum (of_nat (length content))),
                  (''content_hash'', JStr (sha256_hexdigest lib content)),
                  (''metadata'', JObj (asdict ?md)),
                  (''provider'', JStr (provider_value provider))]"
  from create_audit_entry_linked[OF assms(1), of lib "env_uuid env" "env_audit_clock env"
      "''store_memory_unified''" ?data ResultNone]
  obtain e where e: "create_audit_entry lib (env_uuid env) (env_audit_clock env) self
      ''store_memory_unified'' ?data ResultNone = Inr (e, self\<lparr>audit_chain := audit_chain self @ [e]\<rparr>)"
    and i: "entry_getitem e ''chain_index'' = Inr (AInt (int (length (audit_chain self))))"
    by blast
  have cnt: "\<And>xs :: (string \<times> dict) list.
     (0 < length (filter (\<lambda>r. \<not> store_failed r) (map snd xs))) =
     (\<exists>p outcome. (p, outcome) \<in> set xs \<and> \<not> store_failed outcome)"
    by (force simp: filter_empty_conv)
  let ?res = "store_outcomes lib env self content metadata provider"
  have "case store_memory_unified lib env self content metadata provider of
          (Inr r, s) \<Rightarrow>
             sr_results r = ?res \<and> sr_providers_used r = map fst ?res \<and>
             sr_status r =
               (if 0 < length (filter (\<lambda>r. \<not> store_failed r) (map snd ?res))
                then ''success'' else ''failed'')
        | (Inl x, s) \<Rightarrow> False"
    unfolding store_memory_unified_def h sum.case Let_def e
    by (simp add: i store_outcomes_def stamped_def dispatch_mem0_def dispatch_supermemory_def)
  then show ?thesis
    unfolding cnt by (auto split: prod.splits sum.splits)
qed

lemma store_unencodable:
  "\<not> utf8_encodes lib content \<Longrightarrow>
     store_memory_unified lib env self content metadata provider =
       (Inl (HTTPException 500 (''Memory storage failed: '' @ exn_str lib UnicodeEncodeError)),
        self\<lparr>failed_operations := failed_operations self + 1\<rparr>)"
  by (simp add: store_memory_unified_def create_forensic_hash_def)

lemma store_result_fields:
  assumes "store_memory_unified lib env self content metadata provider = (Inr r, self')"
  shows "sr_results r = store_outcomes lib env self content metadata provider \<and>
         sr_providers_used r = map fst (store_outcomes lib env self content metadata provider) \<and>
         sr_status r =
           (if \<exists>p outcome. (p, outcome) \<in> set (store_outcomes lib env self content metadata provider) \<and>
                  \<not> store_failed outcome
            then ''success'' else ''failed'')"
proof -
  have enc: "utf8_encodes lib content"
  proof (rule ccontr)
    assume "\<not> utf8_encodes lib content"
    from store_unencodable[OF this, of env self metadata provider] assms show False by simp
  qed
  then have h: "create_forensic_hash lib content = Inr (sha256_hexdigest lib content)"
    by (simp add: create_forensic_hash_def)
  let ?md = "metadata
            \<lparr>hash_sha256 := sha256_hexdigest lib content,
             timestamp_hst := now_hst (env_now env),
             timestamp_utc := now_utc (env_now env),
             chain_of_custody :=
               chain_of_custody metadata @ [''stored_by_orchestrator_'' @ now_iso (env_now env)]\<rparr>"
  let ?data = "JObj [(''content_length'', JNum (of_nat (length content))),
                  (''content_hash'', JStr (sha256_hexdigest lib content)),
                  (''metadata'', JObj (asdict ?md)),
                  (''provider'', JStr (provider_value provider))]"
  let ?c = "create_audit_entry lib (env_uuid env) (env_audit_clock env) self
      ''store_memory_unified'' ?data ResultNone"
  show ?thesis
  proof (cases ?c)
    case (Inl x)
    with assms show ?thesis
      unfolding store_memory_unified_def h sum.case Let_def by simp
  next
    case (Inr p)
    obtain e self1 where p: "p = (e, self1)" by (cases p)
    from create_audit_entry_state[of lib _ _ self _ _ _ e self1] Inr p
    have s1: "self1 = self\<lparr>audit_chain := audit_chain self @ [e]\<rparr>" by simp
    have cnt: "\<And>xs :: (string \<times> dict) list.
       (0 < length (filter (\<lambda>r. \<not> store_failed r) (map snd xs))) =
       (\<exists>p outcome. (p, outcome) \<in> set xs \<and> \<not> store_failed outcome)"
      by (force simp: filter_empty_conv)
    let ?res = "store_outcomes lib env self content metadata provider"
    have res: "(if dispatch_mem0 self1 provider then [(''mem0'', store_mem0 lib env)] else []) @
               (if dispatch_supermemory self1 provider
                then [(''supermemory'', store_supermemory lib env content ?md)] else []) = ?res"
      unfolding s1
      by (simp add: store_outcomes_def stamped_def dispatch_mem0_def dispatch_supermemory_def)
    show ?thesis
    proof (cases "entry_getitem e ''chain_index''")
      case (Inl x)
      with assms show ?thesis
        unfolding store_memory_unified_def h Let_def \<open>?c = Inr p\<close> p prod.case sum.case res
        by simp
    next
      case idx: (Inr i)
      from assms have "sr_results r = ?res \<and> sr_providers_used r = map fst ?res \<and>
             sr_status r =
               (if 0 < length (filter (\<lambda>r. \<not> store_failed r) (map snd ?res))
                then ''success'' else ''failed'')"
        unfolding store_memory_unified_def h Let_def \<open>?c = Inr p\<close> p prod.case sum.case res idx
        by (auto split: if_splits)
      then show ?thesis unfolding cnt .
    qed
  qed
qed

lemma search_unfold:
  assumes "linked (audit_chain self)"
    and "merge_search_results lib (search_outcomes lib env self provider) = Inr merged"
  shows "\<exists>r self'. search_memory_unified lib env self query cid limit provider = (Inr r, self') \<and>
           results_by_provider r = search_outcomes lib env self provider \<and>
           merged_results r = py_slice_to merged limit \<and>
           total_found r = int (length merged)"
proof -
  let ?data = "JObj [(''query'', JStr query),
                  (''case_id'', JStr (case cid of None \<Rightarrow> case_id self
                       | Some c \<Rightarrow> if c = [] then case_id self else c)),
                  (''limit'', JNum (of_int limit)),
                  (''provider'', JStr (provider_value provider))]"
  from create_audit_entry_linked[OF assms(1), of lib "env_uuid env" "env_audit_clock env"
      "''search_memory_unified''" ?data ResultNone]
  obtain e where e: "create_audit_entry lib (env_uuid env) (env_audit_clock env) self
      ''search_memory_unified'' ?data ResultNone = Inr (e, self\<lparr>audit_chain := audit_chain self @ [e]\<rparr>)"
    and i: "entry_getitem e ''chain_index'' = Inr (AInt (int (length (audit_chain self))))"
    by blast
  have res: "(if dispatch_mem0 (self\<lparr>audit_chain := audit_chain self @ [e]\<rparr>) provider
              then [(''mem0'', search_mem0 lib env)] else []) @
             (if dispatch_supermemory (self\<lparr>audit_chain := audit_chain self @ [e]\<rparr>) provider
              then [(''supermemory'', search_supermemory lib env)] else []) =
             search_outcomes lib env self provider"
    by (simp add: search_outcomes_def dispatch_mem0_def dispatch_supermemory_def)
  show ?thesis
    unfolding search_memory_unified_def Let_def e prod.case sum.case res assms(2)
    by (simp add: i bind_exn_def)
qed


lemma initial_linked: "linked (audit_chain (initial_orchestrator cid m s))"
  by (simp add: initial_orchestrator_def linked_def)

lemma initial_dispatch:
  "dispatch_mem0 (initial_orchestrator cid True True) Provider_ALL"
  "dispatch_supermemory (initial_orchestrator cid True True) Provider_ALL"
  by (simp_all add: dispatch_mem0_def dispatch_supermemory_def initial_orchestrator_def)

lemma example_encodes: "utf8_encodes example_lib s"
  by (simp add: example_lib_def)

lemma example_store_outcomes:
  "store_mem0 example_lib example_store_env =
     [(''status'', JStr ''success''), (''id'', JStr ''r1''), (''provider'', JStr ''mem0'')]"
  "store_supermemory example_lib example_store_env content metadata =
     [(''status'', JStr ''failed''), (''error'', JStr ''error''),
      (''provider'', JStr ''supermemory'')]"
proof -
  show "store_mem0 example_lib example_store_env =
     [(''status'', JStr ''success''), (''id'', JStr ''r1''), (''provider'', JStr ''mem0'')]"
    by (simp add: store_mem0_def example_store_env_def bind_exn_def py_get_def)
  have "sm_enter example_store_env = None" "sm_exit example_store_env = None"
    by (simp_all add: example_store_env_def)
  from store_supermemory_outcome[OF this, of example_lib content metadata]
  show "store_supermemory example_lib example_store_env content metadata =
     [(''status'', JStr ''failed''), (''error'', JStr ''error''),
      (''provider'', JStr ''supermemory'')]"
    by (simp add: example_lib_def)
qed



text \<open>
  Claim C3, as amended. When \<open>store_memory_unified\<close> returns, \<open>results\<close> holds the
  outcome of every dispatched backend, \<open>providers_used\<close> their names, and the status
  is \<open>success\<close> when some outcome has a status other than \<open>failed\<close> and \<open>failed\<close>
  otherwise; it is never \<open>partial\<close>. In particular, when both backends are dispatched
  and exactly one of the two outcomes is \<open>failed\<close>, the status is \<open>success\<close> and
  \<open>results\<close> holds both outcomes, the record of the backend that succeeded included.
\<close>

theorem store_status_success_or_failed:
  assumes "store_memory_unified lib env self content metadata provider = (Inr r, self')"
  shows "sr_results r = store_outcomes lib env self content metadata provider \<and>
         sr_providers_used r = map fst (sr_results r) \<and>
         sr_status r =
           (if \<exists>p outcome. (p, outcome) \<in> set (sr_results r) \<and>
                  map_of outcome ''status'' \<noteq> Some (JStr ''failed'')
            then ''success'' else ''failed'') \<and>
         sr_status r \<noteq> ''partial'' \<and>
         (dispatch_mem0 self provider \<and> dispatch_supermemory self provider \<and>
          (map_of (store_mem0 lib env) ''status'' = Some (JStr ''failed'')) \<noteq>
          (map_of (store_supermemory lib env content (stamped lib env content metadata)) ''status'' =
             Some (JStr ''failed''))
            \<longrightarrow> sr_status r = ''success'' \<and>
                sr_results r =
                  [(''mem0'', store_mem0 lib env),
                   (''supermemory'',
                    store_supermemory lib env content (stamped lib env content metadata))])"
proof -
  let ?A = "store_mem0 lib env"
  let ?B = "store_supermemory lib env content (stamped lib env content metadata)"
  from store_result_fields[OF assms] have
    f1: "sr_results r = store_outcomes lib env self content metadata provider" and
    f2: "sr_providers_used r = map fst (sr_results r)" and
    f3: "sr_status r =
           (if \<exists>p outcome. (p, outcome) \<in> set (sr_results r) \<and>
                  map_of outcome ''status'' \<noteq> Some (JStr ''failed'')
            then ''success'' else ''failed'')"
    by (simp_all add: store_failed_def)
  from f3 have f4: "sr_status r \<noteq> ''partial''" by (simp split: if_splits)
  have f5: "dispatch_mem0 self provider \<and> dispatch_supermemory self provider \<and>
          (map_of ?A ''status'' = Some (JStr ''failed'')) \<noteq>
          (map_of ?B ''status'' = Some (JStr ''failed''))
            \<longrightarrow> sr_status r = ''success'' \<and> sr_results r = [(''mem0'', ?A), (''supermemory'', ?B)]"
  proof
    assume a: "dispatch_mem0 self provider \<and> dispatch_supermemory self provider \<and>
          (map_of ?A ''status'' = Some (JStr ''failed'')) \<noteq>
          (map_of ?B ''status'' = Some (JStr ''failed''))"
    then have r: "sr_results r = [(''mem0'', ?A), (''supermemory'', ?B)]"
      using f1 by (simp add: store_outcomes_def)
    from a have "map_of ?A ''status'' \<noteq> Some (JStr ''failed'') \<or>
                 map_of ?B ''status'' \<noteq> Some (JStr ''failed'')" by blast
    with r have "\<exists>p outcome. (p, outcome) \<in> set (sr_results r) \<and>
                  map_of outcome ''status'' \<noteq> Some (JStr ''failed'')" by auto
    with f3 r show "sr_status r = ''success'' \<and>
                    sr_results r = [(''mem0'', ?A), (''supermemory'', ?B)]"
      by simp
  qed
  from f1 f2 f3 f4 f5 show ?thesis by blast
qed

text \<open>
  The theorem for C3 on a store where Mem0 stores the record and SuperMemory fails:
  the payload with the \<open>MemoryPriority\<close> member in it cannot be encoded.
\<close>

theorem store_status_success_or_failed_witness:
  "\<exists>r self'.
     store_memory_unified example_lib example_store_env (initial_orchestrator ''c'' True True)
       ''evidence-17'' example_metadata Provider_ALL = (Inr r, self') \<and>
     dispatch_mem0 (initial_orchestrator ''c'' True True) Provider_ALL \<and>
     dispatch_supermemory (initial_orchestrator ''c'' True True) Provider_ALL \<and>
     map_of (store_mem0 example_lib example_store_env) ''status'' = Some (JStr ''success'') \<and>
     map_of (store_supermemory example_lib example_store_env ''evidence-17''
               (stamped example_lib example_store_env ''evidence-17'' example_metadata)) ''status'' =
       Some (JStr ''failed'') \<and>
     sr_status r = ''success'' \<and> sr_providers_used r = [''mem0'', ''supermemory''] \<and>
     map_of (sr_results r) ''mem0'' = Some (store_mem0 example_lib example_store_env)"
proof -
  let ?s = "initial_orchestrator ''c'' True True"
  let ?B = "store_supermemory example_lib example_store_env ''evidence-17''
               (stamped example_lib example_store_env ''evidence-17'' example_metadata)"
  from store_unfold[OF initial_linked example_encodes, of example_store_env "''c''" True True
      "''evidence-17''" example_metadata Provider_ALL]
  obtain r self' where
    eq: "store_memory_unified example_lib example_store_env ?s
       ''evidence-17'' example_metadata Provider_ALL = (Inr r, self')" by blast
  have a: "map_of (store_mem0 example_lib example_store_env) ''status'' = Some (JStr ''success'')"
    and b: "map_of ?B ''status'' = Some (JStr ''failed'')"
    by (simp_all add: example_store_outcomes)
  from a b have ne: "(map_of (store_mem0 example_lib example_store_env) ''status'' = Some (JStr ''failed'')) \<noteq>
                     (map_of ?B ''status'' = Some (JStr ''failed''))"
    by simp
  note t = store_status_success_or_failed[OF eq]
  from t have r2: "sr_providers_used r = map fst (sr_results r)" by blast
  from t ne initial_dispatch[of "''c''"]
  have r3: "sr_status r = ''success'' \<and>
    sr_results r = [(''mem0'', store_mem0 example_lib example_store_env), (''supermemory'', ?B)]"
    by blast
  from r2 r3 have r5: "sr_providers_used r = [''mem0'', ''supermemory'']" by simp
  from r3 have r6: "map_of (sr_results r) ''mem0'' = Some (store_mem0 example_lib example_store_env)"
    by simp
  from eq a b initial_dispatch[of "''c''"] r3 r5 r6 show ?thesis by blast
qed

lemma example_store_run:
  "\<exists>r self'.
     store_memory_unified example_lib example_store_env (initial_orchestrator ''c'' True True)
       ''evidence-17'' example_metadata Provider_ALL = (Inr r, self') \<and>
     sr_status r = ''success'' \<and>
     sr_results r =
       [(''mem0'',
         [(''status'', JStr ''success''), (''id'', JStr ''r1''), (''provider'', JStr ''mem0'')]),
        (''supermemory'',
         [(''status'', JStr ''failed''), (''error'', JStr ''error''),
          (''provider'', JStr ''supermemory'')])]"
proof -
  let ?s = "initial_orchestrator ''c'' True True"
  let ?o = "store_outcomes example_lib example_store_env ?s ''evidence-17'' example_metadata Provider_ALL"
  have o: "?o =
       [(''mem0'',
         [(''status'', JStr ''success''), (''id'', JStr ''r1''), (''provider'', JStr ''mem0'')]),
        (''supermemory'',
         [(''status'', JStr ''failed''), (''error'', JStr ''error''),
          (''provider'', JStr ''supermemory'')])]"
    by (simp add: store_outcomes_def initial_dispatch example_store_outcomes)
  have ex: "\<exists>p outcome. (p, outcome) \<in> set ?o \<and> \<not> store_failed outcome"
  proof (intro exI conjI)
    show "(''mem0'', store_mem0 example_lib example_store_env) \<in> set ?o"
      unfolding o by (simp add: example_store_outcomes)
    show "\<not> store_failed (store_mem0 example_lib example_store_env)"
      by (simp add: store_failed_def example_store_outcomes)
  qed
  from store_unfold[OF initial_linked example_encodes, of example_store_env "''c''" True True
      "''evidence-17''" example_metadata Provider_ALL]
  obtain r self' where
    eq: "store_memory_unified example_lib example_store_env ?s
       ''evidence-17'' example_metadata Provider_ALL = (Inr r, self')"
    and res: "sr_results r = ?o"
    and st: "sr_status r =
       (if \<exists>p outcome. (p, outcome) \<in> set ?o \<and> \<not> store_failed outcome
        then ''success'' else ''failed'')"
    by blast
  from st ex have "sr_status r = ''success''" by simp
  moreover from res o have "sr_results r =
       [(''mem0'',
         [(''status'', JStr ''success''), (''id'', JStr ''r1''), (''provider'', JStr ''mem0'')]),
        (''supermemory'',
         [(''status'', JStr ''failed''), (''error'', JStr ''error''),
          (''provider'', JStr ''supermemory'')])]"
    by simp
  ultimately show ?thesis using eq by blast
qed

text \<open>
  Claim C3 as stated fails: Mem0 stores the record, SuperMemory fails, and the returned
  status is \<open>success\<close>, not \<open>partial\<close>; both outcomes are in \<open>results\<close>.
\<close>

theorem store_mixed_outcome_is_success:
  "map_sum id sr_status
     (fst (store_memory_unified example_lib example_store_env (initial_orchestrator ''c'' True True)
        ''evidence-17'' example_metadata Provider_ALL)) = Inr ''success'' \<and>
   map_sum id sr_results
     (fst (store_memory_unified example_lib example_store_env (initial_orchestrator ''c'' True True)
        ''evidence-17'' example_metadata Provider_ALL)) =
     Inr [(''mem0'',
           [(''status'', JStr ''success''), (''id'', JStr ''r1''), (''provider'', JStr ''mem0'')]),
          (''supermemory'',
           [(''status'', JStr ''failed''), (''error'', JStr ''error''),
            (''provider'', JStr ''supermemory'')])]"
proof -
  from example_store_run obtain r self' where
    "store_memory_unified example_lib example_store_env (initial_orchestrator ''c'' True True)
       ''evidence-17'' example_metadata Provider_ALL = (Inr r, self')"
    "sr_status r = ''success''"
    "sr_results r =
       [(''mem0'',
         [(''status'', JStr ''success''), (''id'', JStr ''r1''), (''provider'', JStr ''mem0'')]),
        (''supermemory'',
         [(''status'', JStr ''failed''), (''error'', JStr ''error''),
          (''provider'', JStr ''supermemory'')])]"
    by blast
  then show ?thesis by simp
qed










lemma example_full_search_outcomes:
  "search_outcomes example_lib example_search_env (initial_orchestrator ''c'' True True) Provider_ALL =
     example_search_results"
  by (simp add: search_outcomes_def initial_dispatch example_search_results_def
      search_mem0_def search_supermemory_def example_search_env_def example_lib_def
      bind_exn_def sm_session_def sm_search_memory_def py_contains_def py_get_def)

text \<open>
  The theorem for C8 on the example: two backends return three records, two distinct,
  and a limit of 1 keeps the first of the two merged entries.
\<close>

theorem search_truncates_after_merge_witness:
  "(0::int) \<le> 1 \<and>
   (\<exists>r self'.
      search_memory_unified example_lib example_search_env (initial_orchestrator ''c'' True True)
        ''evidence'' None 1 Provider_ALL = (Inr r, self') \<and>
      results_by_provider r = example_search_results \<and>
      merge_search_results example_lib (results_by_provider r) = Inr example_merged \<and>
      length example_merged = 2 \<and>
      merged_results r = [hd example_merged] \<and>
      total_found r = 2)"
proof -
  let ?s = "initial_orchestrator ''c'' True True"
  have m: "merge_search_results example_lib
             (search_outcomes example_lib example_search_env ?s Provider_ALL) = Inr example_merged"
    by (simp add: example_full_search_outcomes example_merge)
  from search_unfold[OF initial_linked m, of "''evidence''" None 1]
  obtain r self' where
    eq: "search_memory_unified example_lib example_search_env ?s
           ''evidence'' None 1 Provider_ALL = (Inr r, self')" by blast
  have l: "(0::int) \<le> 1" by simp
  from search_truncates_after_merge[OF eq l] obtain merged where
    a: "merge_search_results example_lib (results_by_provider r) = Inr merged"
    and b: "merged_results r = take (nat (min 1 (int (length merged)))) merged"
    and c: "total_found r = int (length merged)"
    and d: "results_by_provider r = search_outcomes example_lib example_search_env ?s Provider_ALL"
    by blast
  from d have d': "results_by_provider r = example_search_results"
    by (simp add: example_full_search_outcomes)
  with a example_merge have me: "merged = example_merged" by simp
  have len: "length example_merged = 2" by (simp add: example_merged_def)
  from b me have "merged_results r = [hd example_merged]"
    by (simp add: example_merged_def)
  with eq d' a me c len l show ?thesis by auto
qed

section \<open>Backend adapters\<close>

lemma mock_add_world:
  "mock_add w c content md = (res, w') \<Longrightarrow>
     uuid_count w' = Suc (uuid_count w) \<and> uuid_source w' = uuid_source w \<and>
     time_source w' = time_source w"
  by (auto simp: mock_add_def uuid4_def now_isoformat_def Let_def split: if_splits)

lemma mem0_store_id:
  assumes "mem0_store w a content metadata = (Inr r, a', w')"
  shows "mr_id r = uuid_source w (uuid_count w) \<and> uuid_source w' = uuid_source w \<and>
         uuid_count w' = uuid_count w + (if m0_client_secondary a = None then 2 else 3)"
proof -
  from assms have init: "m0_is_initialized a"
    by (auto simp: mem0_store_def split: if_splits)
  let ?w2 = "w\<lparr>uuid_count := Suc (uuid_count w), time_count := Suc (time_count w)\<rparr>"
  let ?md = "AList.update ''id'' (JStr (uuid_source w (uuid_count w))) metadata"
  from assms init obtain client where cl: "m0_client a = Some client"
    by (cases "m0_client a") (auto simp: mem0_store_def uuid4_def now_isoformat_def Let_def)
  obtain res1 w3 where m1: "mock_add ?w2 client content ?md = (res1, w3)"
    by (cases "mock_add ?w2 client content ?md")
  from mock_add_world[OF m1] have w3: "uuid_count w3 = uuid_count w + 2" "uuid_source w3 = uuid_source w"
    by simp_all
  from assms init cl m1 obtain v1 where r1: "res1 = Inr v1"
    by (cases res1) (auto simp: mem0_store_def uuid4_def now_isoformat_def Let_def)
  obtain pr client' where v1: "v1 = (pr, client')" by (cases v1)
  show ?thesis
  proof (cases "m0_client_secondary a")
    case None
    with assms init cl m1 r1 v1 w3 show ?thesis
      by (auto simp: mem0_store_def uuid4_def now_isoformat_def Let_def)
  next
    case (Some secondary)
    obtain res2 w4 where m2: "mock_add w3 secondary content ?md = (res2, w4)"
      by (cases "mock_add w3 secondary content ?md")
    from mock_add_world[OF m2] w3 have w4: "uuid_count w4 = uuid_count w + 3" "uuid_source w4 = uuid_source w"
      by simp_all
    from assms init cl m1 r1 v1 Some m2 obtain v2 where r2: "res2 = Inr v2"
      by (cases res2) (auto simp: mem0_store_def uuid4_def now_isoformat_def Let_def)
    with assms init cl m1 r1 v1 Some m2 w4 show ?thesis
      by (auto simp: mem0_store_def uuid4_def now_isoformat_def Let_def split: prod.splits)
  qed
qed

lemma supermemory_store_id:
  assumes "supermemory_store w b content metadata = (Inr r, b', w')"
  shows "mr_id r = uuid_source w (uuid_count w)"
proof -
  from assms have init: "sm_is_initialized b"
    by (auto simp: supermemory_store_def split: if_splits)
  with assms show ?thesis
    by (auto simp: supermemory_store_def uuid4_def now_isoformat_def Let_def
        split: option.splits prod.splits sum.splits)
qed

text \<open>
  Claim C6, as amended. When the Mem0 adapter and then the SuperMemory adapter store
  the same content with the same metadata, each returns a record whose id is the UUID
  it drew itself inside \<open>store\<close>: the first at the position of the UUID source on entry,
  the second two draws later (three when Mem0 has a secondary client), whatever the
  metadata holds, an id put there by the caller included. The metadata of the records
  is the caller's, unchanged.
\<close>

theorem adapters_draw_their_own_ids:
  assumes "mem0_store w a content metadata = (Inr r1, a', w1)"
    and "supermemory_store w1 b content metadata = (Inr r2, b', w2)"
  shows "mr_id r1 = uuid_source w (uuid_count w) \<and>
         mr_id r2 = uuid_source w (uuid_count w + (if m0_client_secondary a = None then 2 else 3)) \<and>
         mr_metadata r1 = metadata \<and> mr_metadata r2 = metadata"
proof -
  from mem0_store_id[OF assms(1)] supermemory_store_id[OF assms(2)]
  have "mr_id r1 = uuid_source w (uuid_count w) \<and>
         mr_id r2 = uuid_source w (uuid_count w + (if m0_client_secondary a = None then 2 else 3))"
    by simp
  moreover from assms(1) have "mr_metadata r1 = metadata"
    by (auto simp: mem0_store_def uuid4_def now_isoformat_def Let_def
        split: if_splits option.splits prod.splits sum.splits)
  moreover from assms(2) have "mr_metadata r2 = metadata"
    by (auto simp: supermemory_store_def uuid4_def now_isoformat_def Let_def
        split: if_splits option.splits prod.splits sum.splits)
  ultimately show ?thesis by blast
qed

lemmas adapter_eval =
  mem0_store_def supermemory_store_def mock_add_def uuid4_def now_isoformat_def Let_def
  dict_get_def unhashable_def example_world_def example_mem0_def example_supermemory_def
  example_record_metadata_def

lemma example_mem0_store:
  "mem0_store example_world example_mem0 ''evidence-17'' example_record_metadata =
     (Inr \<lparr>mr_id = ''uuid-'', mr_content = ''evidence-17'',
           mr_metadata = example_record_metadata, mr_timestamp = ''t-'',
           mr_source_system = ''Mem0'', legal_relevance_score = JNum 0,
           cross_references = []\<rparr>,
      \<lparr>m0_is_initialized = True,
        m0_client = Some [(JStr ''uuid-'',
          JObj [(''id'', JStr ''uuid-''), (''content'', JStr ''evidence-17''),
                (''metadata'', JObj [(''id'', JStr ''uuid-''), (''case_id'', JStr ''c'')]),
                (''timestamp'', JStr ''t-x'')])],
        m0_client_secondary = None\<rparr>,
      example_world\<lparr>uuid_count := 2, time_count := 2\<rparr>)"
  by (simp add: adapter_eval numeral_2_eq_2)

lemma example_supermemory_store:
  "supermemory_store (example_world\<lparr>uuid_count := 2, time_count := 2\<rparr>) example_supermemory
       ''evidence-17'' example_record_metadata =
     (Inr \<lparr>mr_id = ''uuid-xx'', mr_content = ''evidence-17'',
           mr_metadata = example_record_metadata, mr_timestamp = ''t-xx'',
           mr_source_system = ''SuperMemory'', legal_relevance_score = JNum 0,
           cross_references = []\<rparr>,
      \<lparr>sm_is_initialized = True,
        sm_client = Some [(JStr ''uuid-xx'',
          JObj [(''id'', JStr ''uuid-xx''), (''content'', JStr ''evidence-17''),
                (''metadata'', JObj [(''id'', JStr ''uuid-xx''), (''case_id'', JStr ''c'')]),
                (''timestamp'', JStr ''t-xxx'')])]\<rparr>,
      example_world\<lparr>uuid_count := 4, time_count := 4\<rparr>)"
  by (simp add: adapter_eval numeral_2_eq_2 numeral_3_eq_3 eval_nat_numeral)

text \<open>
  Claim C6 as stated fails: the same logical write, with the id \<open>engine-id\<close> in its
  metadata, gets the id \<open>uuid-\<close> from the Mem0 adapter and \<open>uuid-xx\<close> from the SuperMemory
  adapter.
\<close>

theorem adapters_ids_differ:
  "map_sum id mr_id
     (fst (mem0_store example_world example_mem0 ''evidence-17'' example_record_metadata)) =
     Inr ''uuid-'' \<and>
   map_sum id mr_id
     (fst (supermemory_store
        (snd (snd (mem0_store example_world example_mem0 ''evidence-17'' example_record_metadata)))
        example_supermemory ''evidence-17'' example_record_metadata)) =
     Inr ''uuid-xx'' \<and>
   map_of example_record_metadata ''id'' = Some (JStr ''engine-id'')"
  by (simp add: example_mem0_store example_supermemory_store) (simp add: example_record_metadata_def)

text \<open>The theorem for C6 on the example.\<close>

theorem adapters_draw_their_own_ids_witness:
  "mem0_store example_world example_mem0 ''evidence-17'' example_record_metadata =
     (Inr \<lparr>mr_id = ''uuid-'', mr_content = ''evidence-17'',
           mr_metadata = example_record_metadata, mr_timestamp = ''t-'',
           mr_source_system = ''Mem0'', legal_relevance_score = JNum 0,
           cross_references = []\<rparr>,
      \<lparr>m0_is_initialized = True,
        m0_client = Some [(JStr ''uuid-'',
          JObj [(''id'', JStr ''uuid-''), (''content'', JStr ''evidence-17''),
                (''metadata'', JObj [(''id'', JStr ''uuid-''), (''case_id'', JStr ''c'')]),
                (''timestamp'', JStr ''t-x'')])],
        m0_client_secondary = None\<rparr>,
      example_world\<lparr>uuid_count := 2, time_count := 2\<rparr>) \<and>
   uuid_source example_world (uuid_count example_world) = ''uuid-'' \<and>
   uuid_source example_world (uuid_count example_world + 2) = ''uuid-xx''"
proof -
  note t = adapters_draw_their_own_ids[OF example_mem0_store example_supermemory_store]
  from t have "uuid_source example_world (uuid_count example_world) = ''uuid-''" by simp
  moreover from t have "uuid_source example_world (uuid_count example_world + 2) = ''uuid-xx''"
    by (simp add: example_mem0_def)
  ultimately show ?thesis using example_mem0_store by blast
qed

section \<open>The resilient request layer\<close>

lemma backoff_sleep_ok:
  "float_pow fl b (n - 1) = Inr s \<Longrightarrow> time_sleep fl s = None \<Longrightarrow> backoff_sleep fl b n = Inr s"
  by (simp add: backoff_sleep_def)

lemma backoff_sleep_pow_raises:
  "float_pow fl b (n - 1) = Inl x \<Longrightarrow> backoff_sleep fl b n = Inl x"
  by (simp add: backoff_sleep_def)

lemma backoff_sleep_sleep_raises:
  "float_pow fl b (n - 1) = Inr s \<Longrightarrow> time_sleep fl s = Some x \<Longrightarrow> backoff_sleep fl b n = Inl x"
  by (simp add: backoff_sleep_def)

lemma request_loop_step:
  assumes "retryable (transport (Suc n))" and "int (Suc n) \<le> max_retries cfg"
  shows "request_loop fl cfg url transport n slept =
           (case backoff_sleep fl (backoff_factor cfg) (Suc n) of
              Inl x \<Rightarrow> (Inl (Raised x), slept)
            | Inr sleep_s \<Rightarrow> request_loop fl cfg url transport (Suc n) (slept @ [sleep_s]))"
proof -
  from assms(2) have le: "\<not> int (Suc n) > max_retries cfg" by simp
  show ?thesis
  proof (cases "transport (Suc n)")
    case (RequestException e)
    with le show ?thesis
      by (subst request_loop.simps) (simp add: Let_def)
  next
    case (Response resp)
    with assms(1) have "status_code resp = 429 \<or> (500 \<le> status_code resp \<and> status_code resp < 600)"
      by (simp add: retryable_def)
    with Response le show ?thesis
      by (subst request_loop.simps) (simp add: Let_def)
  qed
qed

lemma request_loop_run:
  assumes "\<forall>i. 1 \<le> i \<and> i \<le> k \<longrightarrow>
             retryable (transport i) \<and>
             float_pow fl (backoff_factor cfg) (i - 1) = Inr (d i) \<and> time_sleep fl (d i) = None"
    and "int k \<le> max_retries cfg"
  shows "request_loop fl cfg url transport 0 [] =
           request_loop fl cfg url transport k (map d [1..<Suc k])"
  using assms
proof (induction k)
  case 0
  then show ?case by simp
next
  case (Suc k)
  then have ih: "request_loop fl cfg url transport 0 [] =
           request_loop fl cfg url transport k (map d [1..<Suc k])"
    by simp
  from Suc.prems(1) have "1 \<le> Suc k \<and> Suc k \<le> Suc k \<longrightarrow>
             retryable (transport (Suc k)) \<and>
             float_pow fl (backoff_factor cfg) (Suc k - 1) = Inr (d (Suc k)) \<and>
             time_sleep fl (d (Suc k)) = None"
    by blast
  then have r: "retryable (transport (Suc k))"
    and p: "float_pow fl (backoff_factor cfg) (Suc k - 1) = Inr (d (Suc k))"
    and s: "time_sleep fl (d (Suc k)) = None"
    by simp_all
  from backoff_sleep_ok[OF p s]
  have b: "backoff_sleep fl (backoff_factor cfg) (Suc k) = Inr (d (Suc k))" .
  from request_loop_step[where transport = transport and n = k and cfg = cfg and fl = fl
      and url = url and slept = "map d [1..<Suc k]"] r Suc.prems(2) b
  have "request_loop fl cfg url transport k (map d [1..<Suc k]) =
        request_loop fl cfg url transport (Suc k) (map d [1..<Suc k] @ [d (Suc k)])"
    by simp
  with ih show ?case by simp
qed

text \<open>
  Claim C7, as amended. When the first \<open>k\<close> attempts all end in a transport failure,
  429 or 5xx, \<open>k\<close> does not exceed \<open>max_retries\<close>, and at each of them the power
  \<open>backoff_factor ** (attempt - 1)\<close> and the \<open>time.sleep\<close> of it return, \<open>_request\<close> has
  slept these durations and stands before attempt \<open>k + 1\<close>. At attempt \<open>n + 1\<close>, on
  such an outcome with the attempt within \<open>max_retries\<close>: the code computes
  \<open>backoff_factor ** (attempt - 1)\<close> and sleeps that long, and retries with the counter
  incremented; when the power raises (\<open>OverflowError\<close>) or \<open>time.sleep\<close> raises (a
  negative or too large duration), that error leaves \<open>_request\<close> and there is no retry.
  Beyond \<open>max_retries\<close> a transport failure raises the network error and a 429 or 5xx
  the rate-limit error; any other status from 400 to 599 raises the HTTP error at once,
  with no sleep and no retry; and any other status, 1xx and 3xx included, returns the
  body (parsed JSON, else the text).
\<close>

theorem request_retry_policy:
  "((\<forall>i. 1 \<le> i \<and> i \<le> k \<longrightarrow>
        retryable (transport i) \<and>
        float_pow fl (backoff_factor cfg) (i - 1) = Inr (d i) \<and> time_sleep fl (d i) = None) \<and>
    int k \<le> max_retries cfg \<longrightarrow>
      request fl cfg path transport =
        request_loop fl cfg (base_url cfg @ path) transport k (map d [1..<Suc k])) \<and>
   (retryable (transport (Suc n)) \<and> int (Suc n) \<le> max_retries cfg \<and>
    float_pow fl (backoff_factor cfg) (Suc n - 1) = Inr s \<and> time_sleep fl s = None \<longrightarrow>
      request_loop fl cfg url transport n slept =
        request_loop fl cfg url transport (Suc n) (slept @ [s])) \<and>
   (retryable (transport (Suc n)) \<and> int (Suc n) \<le> max_retries cfg \<and>
    float_pow fl (backoff_factor cfg) (Suc n - 1) = Inl x \<longrightarrow>
      request_loop fl cfg url transport n slept = (Inl (Raised x), slept)) \<and>
   (retryable (transport (Suc n)) \<and> int (Suc n) \<le> max_retries cfg \<and>
    float_pow fl (backoff_factor cfg) (Suc n - 1) = Inr s \<and> time_sleep fl s = Some x \<longrightarrow>
      request_loop fl cfg url transport n slept = (Inl (Raised x), slept)) \<and>
   (transport (Suc n) = RequestException e \<and> int (Suc n) > max_retries cfg \<longrightarrow>
      request_loop fl cfg url transport n slept =
        (Inl (MemoryPluginError_Network url e), slept)) \<and>
   (transport (Suc n) = Response resp \<and> retryable (Response resp) \<and>
    int (Suc n) > max_retries cfg \<longrightarrow>
      request_loop fl cfg url transport n slept =
        (Inl (MemoryPluginRateLimitError (max_retries cfg) (status_code resp)
                (take 500 (resp_text resp))), slept)) \<and>
   (transport (Suc n) = Response resp \<and> \<not> retryable (Response resp) \<and>
    400 \<le> status_code resp \<and> status_code resp < 600 \<longrightarrow>
      request_loop fl cfg url transport n slept =
        (Inl (MemoryPluginError_HTTP (status_code resp) url (take 500 (resp_text resp))),
         slept)) \<and>
   (transport (Suc n) = Response resp \<and> \<not> retryable (Response resp) \<and>
    \<not> (400 \<le> status_code resp \<and> status_code resp < 600) \<longrightarrow>
      request_loop fl cfg url transport n slept =
        (Inr (case resp_json resp of Some v \<Rightarrow> v | None \<Rightarrow> JStr (resp_text resp)), slept))"
proof (intro conjI impI)
  assume "(\<forall>i. 1 \<le> i \<and> i \<le> k \<longrightarrow>
        retryable (transport i) \<and>
        float_pow fl (backoff_factor cfg) (i - 1) = Inr (d i) \<and> time_sleep fl (d i) = None) \<and>
    int k \<le> max_retries cfg"
  then show "request fl cfg path transport =
        request_loop fl cfg (base_url cfg @ path) transport k (map d [1..<Suc k])"
    using request_loop_run[where k = k and transport = transport and fl = fl and cfg = cfg
        and d = d and url = "base_url cfg @ path"]
    by (simp add: request_def)
next
  assume a: "retryable (transport (Suc n)) \<and> int (Suc n) \<le> max_retries cfg \<and>
    float_pow fl (backoff_factor cfg) (Suc n - 1) = Inr s \<and> time_sleep fl s = None"
  then have "backoff_sleep fl (backoff_factor cfg) (Suc n) = Inr s"
    using backoff_sleep_ok[of fl "backoff_factor cfg" "Suc n" s] by blast
  with a show "request_loop fl cfg url transport n slept =
        request_loop fl cfg url transport (Suc n) (slept @ [s])"
    using request_loop_step[where transport = transport and n = n and cfg = cfg and fl = fl
        and url = url and slept = slept] by simp
next
  assume a: "retryable (transport (Suc n)) \<and> int (Suc n) \<le> max_retries cfg \<and>
    float_pow fl (backoff_factor cfg) (Suc n - 1) = Inl x"
  then have "backoff_sleep fl (backoff_factor cfg) (Suc n) = Inl x"
    using backoff_sleep_pow_raises[of fl "backoff_factor cfg" "Suc n" x] by blast
  with a show "request_loop fl cfg url transport n slept = (Inl (Raised x), slept)"
    using request_loop_step[where transport = transport and n = n and cfg = cfg and fl = fl
        and url = url and slept = slept] by simp
next
  assume a: "retryable (transport (Suc n)) \<and> int (Suc n) \<le> max_retries cfg \<and>
    float_pow fl (backoff_factor cfg) (Suc n - 1) = Inr s \<and> time_sleep fl s = Some x"
  then have "backoff_sleep fl (backoff_factor cfg) (Suc n) = Inl x"
    using backoff_sleep_sleep_raises[of fl "backoff_factor cfg" "Suc n" s x] by blast
  with a show "request_loop fl cfg url transport n slept = (Inl (Raised x), slept)"
    using request_loop_step[where transport = transport and n = n and cfg = cfg and fl = fl
        and url = url and slept = slept] by simp
next
  assume "transport (Suc n) = RequestException e \<and> int (Suc n) > max_retries cfg"
  then show "request_loop fl cfg url transport n slept =
              (Inl (MemoryPluginError_Network url e), slept)"
    by (subst request_loop.simps) (simp add: Let_def)
next
  assume "transport (Suc n) = Response resp \<and> retryable (Response resp) \<and>
          int (Suc n) > max_retries cfg"
  then show "request_loop fl cfg url transport n slept =
              (Inl (MemoryPluginRateLimitError (max_retries cfg) (status_code resp)
                      (take 500 (resp_text resp))), slept)"
    by (subst request_loop.simps) (auto simp: Let_def retryable_def)
next
  assume "transport (Suc n) = Response resp \<and> \<not> retryable (Response resp) \<and>
          400 \<le> status_code resp \<and> status_code resp < 600"
  then show "request_loop fl cfg url transport n slept =
              (Inl (MemoryPluginError_HTTP (status_code resp) url (take 500 (resp_text resp))),
               slept)"
    by (subst request_loop.simps) (auto simp: Let_def retryable_def resp_ok_def)
next
  assume "transport (Suc n) = Response resp \<and> \<not> retryable (Response resp) \<and>
          \<not> (400 \<le> status_code resp \<and> status_code resp < 600)"
  then show "request_loop fl cfg url transport n slept =
              (Inr (case resp_json resp of Some v \<Rightarrow> v | None \<Rightarrow> JStr (resp_text resp)), slept)"
    by (subst request_loop.simps) (auto simp: Let_def retryable_def resp_ok_def)
qed

text \<open>
  Claim C7 as stated fails: the status 304 is not 2xx, not 429 and not 5xx, and
  \<open>_request\<close> returns the body instead of raising a protocol error.
\<close>

theorem request_returns_not_modified:
  "request example_floats example_config ''/v1/memories'' not_modified = (Inr (JStr []), [])"
  unfolding request_def
  by (subst request_loop.simps)
     (simp add: Let_def not_modified_def example_config_def resp_ok_def)

lemma example_range: "(2::real) \<le> 2 ^ 1024" "(3::real) < 2 ^ 63"
proof -
  show "(2::real) \<le> 2 ^ 1024"
    using power_increasing[of 1 1024 "2::real"] by simp
  have "(4::real) = 2 ^ 2" by simp
  also have "\<dots> \<le> 2 ^ 63" by (rule power_increasing) simp_all
  finally show "(3::real) < 2 ^ 63" by linarith
qed

lemma example_pow:
  "float_pow example_floats (3 / 2) 0 = Inr 1"
  "float_pow example_floats (3 / 2) (Suc 0) = Inr (3 / 2)"
  "float_pow example_floats (- 1) 0 = Inr 1"
  "float_pow example_floats (- 1) (Suc 0) = Inr (- 1)"
proof -
  have a: "\<bar>(1::real)\<bar> < 2 ^ 1024" "\<bar>(3 / 2 :: real)\<bar> < 2 ^ 1024" "\<bar>(- 1 :: real)\<bar> < 2 ^ 1024"
    using example_range(1) by linarith+
  show "float_pow example_floats (3 / 2) 0 = Inr 1"
    unfolding example_floats_def using a(1) by (simp del: power_numeral)
  show "float_pow example_floats (3 / 2) (Suc 0) = Inr (3 / 2)"
    unfolding example_floats_def using a(2) by (simp del: power_numeral)
  show "float_pow example_floats (- 1) 0 = Inr 1"
    unfolding example_floats_def using a(1) by (simp del: power_numeral)
  show "float_pow example_floats (- 1) (Suc 0) = Inr (- 1)"
    unfolding example_floats_def using a(3) by (simp del: power_numeral)
qed

lemma example_sleep:
  "time_sleep example_floats 1 = None"
  "time_sleep example_floats (3 / 2) = None"
  "time_sleep example_floats (- 1) = Some ValueError"
proof -
  have b: "(2::real) ^ 63 / 10 ^ 9 > 3 / 2" "(2::real) ^ 63 / 10 ^ 9 > 1"
    by simp_all
  then have c: "\<not> (2::real) ^ 63 \<le> 1 * 10 ^ 9" "\<not> (2::real) ^ 63 \<le> 3 / 2 * 10 ^ 9"
    by simp_all
  show "time_sleep example_floats 1 = None"
    unfolding example_floats_def using c(1) by simp
  show "time_sleep example_floats (3 / 2) = None"
    unfolding example_floats_def using c(2) by simp
  show "time_sleep example_floats (- 1) = Some ValueError"
    unfolding example_floats_def by simp
qed

text \<open>
  The theorem for C7 on two timeouts followed by a 200: with the backoff factor 1.5 the
  call sleeps 1 and 1.5 seconds and returns the JSON body; with the backoff factor -1
  it sleeps 1 second after the first timeout, and after the second \<open>time.sleep(-1.0)\<close>
  raises \<open>ValueError\<close>, which leaves \<open>_request\<close>.
\<close>

theorem request_retry_policy_witness:
  "retryable (two_timeouts 1) \<and> retryable (two_timeouts 2) \<and>
   float_pow example_floats (backoff_factor example_config) 0 = Inr 1 \<and>
   float_pow example_floats (backoff_factor example_config) 1 = Inr (3 / 2) \<and>
   time_sleep example_floats 1 = None \<and> time_sleep example_floats (3 / 2) = None \<and>
   (2::int) \<le> max_retries example_config \<and>
   request example_floats example_config ''/v1/memories'' two_timeouts =
     (Inr (JObj [(''id'', JStr ''m1'')]), [1, 3 / 2]) \<and>
   float_pow example_floats (- 1) 1 = Inr (- 1) \<and>
   time_sleep example_floats (- 1) = Some ValueError \<and>
   request example_floats (example_config\<lparr>backoff_factor := - 1\<rparr>) ''/v1/memories'' two_timeouts =
     (Inl (Raised ValueError), [1])"
proof -
  let ?d = "\<lambda>i::nat. if i = 1 then (1::real) else 3 / 2"
  have bf: "backoff_factor example_config = 3 / 2" by (simp add: example_config_def)
  have r: "\<forall>i. 1 \<le> i \<and> i \<le> (2::nat) \<longrightarrow>
        retryable (two_timeouts i) \<and>
        float_pow example_floats (backoff_factor example_config) (i - 1) = Inr (?d i) \<and>
        time_sleep example_floats (?d i) = None"
  proof (intro allI impI)
    fix i :: nat
    assume "1 \<le> i \<and> i \<le> 2"
    then have "i = 1 \<or> i = 2" by arith
    then show "retryable (two_timeouts i) \<and>
        float_pow example_floats (backoff_factor example_config) (i - 1) = Inr (?d i) \<and>
        time_sleep example_floats (?d i) = None"
      unfolding bf by (auto simp: two_timeouts_def retryable_def example_pow example_sleep)
  qed
  have m: "int 2 \<le> max_retries example_config" by (simp add: example_config_def)
  let ?resp = "\<lparr>status_code = 200, resp_text = ''{}'',
                     resp_json = Some (JObj [(''id'', JStr ''m1'')])\<rparr>"
  have third: "two_timeouts (Suc 2) = Response ?resp \<and> \<not> retryable (Response ?resp) \<and>
          \<not> (400 \<le> status_code ?resp \<and> status_code ?resp < 600)"
    by (simp add: two_timeouts_def retryable_def)
  note t = request_retry_policy[where k = 2 and transport = two_timeouts and fl = example_floats
      and cfg = example_config and d = ?d and path = "''/v1/memories''" and n = 2
      and url = "base_url example_config @ ''/v1/memories''"
      and slept = "map ?d [1..<Suc 2]" and resp = ?resp]
  from t r m have
    "request example_floats example_config ''/v1/memories'' two_timeouts =
       request_loop example_floats example_config (base_url example_config @ ''/v1/memories'')
         two_timeouts 2 (map ?d [1..<Suc 2])"
    by blast
  moreover from t third have
    "request_loop example_floats example_config (base_url example_config @ ''/v1/memories'')
         two_timeouts 2 (map ?d [1..<Suc 2]) =
       (Inr (JObj [(''id'', JStr ''m1'')]), map ?d [1..<Suc 2])"
    by simp
  moreover have "map ?d [1..<Suc 2] = [1, 3 / 2]"
    by (simp add: upt_rec numeral_2_eq_2)
  ultimately have res: "request example_floats example_config ''/v1/memories'' two_timeouts =
     (Inr (JObj [(''id'', JStr ''m1'')]), [1, 3 / 2])" by simp
  have r1: "retryable (two_timeouts 1)" and r2: "retryable (two_timeouts 2)"
    by (simp_all add: two_timeouts_def retryable_def)
  have p0: "float_pow example_floats (backoff_factor example_config) 0 = Inr 1"
    and p1: "float_pow example_floats (backoff_factor example_config) 1 = Inr (3 / 2)"
    unfolding bf using example_pow by simp_all
  have m2: "(2::int) \<le> max_retries example_config" by (simp add: example_config_def)
  let ?neg = "example_config\<lparr>backoff_factor := - 1\<rparr>"
  let ?one = "\<lambda>i::nat. (1::real)"
  have nf: "backoff_factor ?neg = - 1" "max_retries ?neg = 3" "base_url ?neg = base_url example_config"
    by (simp_all add: example_config_def)
  have q1: "float_pow example_floats (- 1) 1 = Inr (- 1)"
    using example_pow(4) by simp
  have nr: "\<forall>i. 1 \<le> i \<and> i \<le> (1::nat) \<longrightarrow>
        retryable (two_timeouts i) \<and>
        float_pow example_floats (backoff_factor ?neg) (i - 1) = Inr (?one i) \<and>
        time_sleep example_floats (?one i) = None"
  proof (intro allI impI)
    fix i :: nat
    assume "1 \<le> i \<and> i \<le> 1"
    then have "i = 1" by arith
    then show "retryable (two_timeouts i) \<and>
        float_pow example_floats (backoff_factor ?neg) (i - 1) = Inr (?one i) \<and>
        time_sleep example_floats (?one i) = None"
      unfolding nf by (simp add: two_timeouts_def retryable_def example_pow example_sleep)
  qed
  have nm: "int 1 \<le> max_retries ?neg" "int (Suc 1) \<le> max_retries ?neg"
    unfolding nf by simp_all
  note u = request_retry_policy[where k = 1 and transport = two_timeouts and fl = example_floats
      and cfg = ?neg and d = ?one and path = "''/v1/memories''" and n = 1
      and url = "base_url ?neg @ ''/v1/memories''"
      and slept = "map ?one [1..<Suc 1]" and s = "- 1" and x = ValueError]
  from u nr nm(1) have
    "request example_floats ?neg ''/v1/memories'' two_timeouts =
       request_loop example_floats ?neg (base_url ?neg @ ''/v1/memories'')
         two_timeouts 1 (map ?one [1..<Suc 1])"
    by blast
  moreover have "retryable (two_timeouts (Suc 1)) \<and> int (Suc 1) \<le> max_retries ?neg \<and>
      float_pow example_floats (backoff_factor ?neg) (Suc 1 - 1) = Inr (- 1) \<and>
      time_sleep example_floats (- 1) = Some ValueError"
    using nm(2) q1 example_sleep(3) unfolding nf
    by (simp add: two_timeouts_def retryable_def)
  with u have
    "request_loop example_floats ?neg (base_url ?neg @ ''/v1/memories'')
         two_timeouts 1 (map ?one [1..<Suc 1]) = (Inl (Raised ValueError), map ?one [1..<Suc 1])"
    by blast
  moreover have "map ?one [1..<Suc 1] = [1]" by simp
  ultimately have neg: "request example_floats ?neg ''/v1/memories'' two_timeouts =
     (Inl (Raised ValueError), [1])" by simp
  from r1 r2 p0 p1 example_sleep(1,2) m2 res q1 example_sleep(3) neg
  show ?thesis by (intro conjI)
qed

end
